theory Spec2Isabelle
  imports Complex_Main "HOL-Library.Word"
begin

section \<open>JavaScript values as the handlers see them\<close>

text \<open>
  A JavaScript string is a sequence of UTF-16 code units; \<open>.length\<close> counts them.
  String constants of the source are ASCII and are written through \<open>js_lit\<close>.
\<close>

type_synonym jsstring = "16 word list"

definition js_lit :: "string \<Rightarrow> jsstring" where
  "js_lit s = map (\<lambda>c. word_of_nat (of_char c)) s"

text \<open>
  A Number: a finite value, an infinity or NaN. The sign of zero is not kept: nothing in
  the source tells \<open>-0\<close> from \<open>0\<close>.
\<close>

datatype jsnumber = NaN | NegInfinity | Num real | PosInfinity

text \<open>
  The values a request body parsed by \<open>c.req.json()\<close> is made of, and \<open>undefined\<close>
  for a property that is not there. An object is the list of its own properties.
\<close>

datatype jsval =
    JUndefined
  | JNull
  | JBool bool
  | JNum jsnumber
  | JStr jsstring
  | JArr "jsval list"
  | JObj "(jsstring \<times> jsval) list"

datatype exn = TypeError | BackendError

text \<open>\<open>ToBoolean\<close>: what \<open>!x\<close>, \<open>x || y\<close>, \<open>x ? a : b\<close> and \<open>Boolean(x)\<close> test.\<close>

fun truthy :: "jsval \<Rightarrow> bool" where
  "truthy JUndefined = False"
| "truthy JNull = False"
| "truthy (JBool b) = b"
| "truthy (JNum n) = (n \<noteq> NaN \<and> n \<noteq> Num 0)"
| "truthy (JStr s) = (s \<noteq> [])"
| "truthy (JArr _) = True"
| "truthy (JObj _) = True"

text \<open>
  \<open>v.name\<close> for a name that no built-in prototype defines (\<open>encryptedPayload\<close>,
  \<open>expiryOption\<close>, \<open>readOnce\<close>): the own property of an object, \<open>undefined\<close>
  on every other value, and a TypeError on \<open>null\<close> and \<open>undefined\<close>.
\<close>

fun get_prop :: "jsval \<Rightarrow> jsstring \<Rightarrow> exn + jsval" where
  "get_prop JUndefined name = Inl TypeError"
| "get_prop JNull name = Inl TypeError"
| "get_prop (JObj ps) name = Inr (case map_of ps name of None \<Rightarrow> JUndefined | Some v \<Rightarrow> v)"
| "get_prop _ name = Inr JUndefined"

text \<open>\<open>v?.name\<close>: as \<open>v.name\<close>, but \<open>undefined\<close> on \<open>null\<close> and \<open>undefined\<close>.\<close>

definition get_prop_opt :: "jsval \<Rightarrow> jsstring \<Rightarrow> jsval" where
  "get_prop_opt v name = (case get_prop v name of Inl _ \<Rightarrow> JUndefined | Inr x \<Rightarrow> x)"

section \<open>Configuration constants\<close>

definition MAX_PAYLOAD_SIZE :: nat where "MAX_PAYLOAD_SIZE = 10 * 1024 * 1024"
definition ID_LENGTH :: nat where "ID_LENGTH = 16"
definition MAX_ID_LENGTH :: nat where "MAX_ID_LENGTH = 32"
definition MIN_TTL :: real where "MIN_TTL = 60"
definition DEFAULT_TTL :: real where "DEFAULT_TTL = 24 * 60 * 60"
definition READ_ONCE_TTL :: real where "READ_ONCE_TTL = 24 * 60 * 60"

definition TTL_MAP :: "(jsstring \<times> real) list" where
  "TTL_MAP =
    [(js_lit ''5min'', 5 * 60),
     (js_lit ''30min'', 30 * 60),
     (js_lit ''1hour'', 60 * 60),
     (js_lit ''6hour'', 6 * 60 * 60),
     (js_lit ''1day'', 24 * 60 * 60)]"

section \<open>Utility functions\<close>

subsection \<open>generateId\<close>

definition characters :: jsstring where
  "characters = js_lit ''ABCDEFGHIJKLMNOPQRSTUVWXYZabcdefghijklmnopqrstuvwxyz0123456789''"

text \<open>
  \<open>crypto.getRandomValues\<close> fills a \<open>Uint8Array\<close> of the given length. The random
  source is a stream of bytes; a call reads \<open>len\<close> bytes from position \<open>pos\<close>.
\<close>

definition getRandomValues :: "(nat \<Rightarrow> 8 word) \<Rightarrow> nat \<Rightarrow> nat \<Rightarrow> 8 word list" where
  "getRandomValues src pos len = map src [pos ..< pos + len]"

text \<open>
  \<open>characters[v % characters.length]\<close>. The index is below \<open>characters.length\<close>, so the
  read is never out of range.
\<close>

definition id_char :: "8 word \<Rightarrow> 16 word" where
  "id_char v = characters ! (unat v mod length characters)"

definition generateId :: "8 word list \<Rightarrow> jsstring" where
  "generateId randomValues = map id_char randomValues"

subsection \<open>validatePayload and validateSecretId\<close>

datatype validation = Valid | Invalid string

fun is_valid :: "validation \<Rightarrow> bool" where
  "is_valid Valid = True"
| "is_valid (Invalid _) = False"

fun is_JStr :: "jsval \<Rightarrow> bool" where
  "is_JStr (JStr _) = True"
| "is_JStr _ = False"

fun str_length :: "jsval \<Rightarrow> nat" where
  "str_length (JStr s) = length s"
| "str_length _ = 0"

definition validatePayload :: "jsval \<Rightarrow> validation" where
  "validatePayload encryptedPayload =
    (if \<not> truthy encryptedPayload then Invalid ''Encrypted payload is required''
     else if \<not> is_JStr encryptedPayload then Invalid ''Invalid payload type''
     else if str_length encryptedPayload = 0 then Invalid ''Payload cannot be empty''
     else if str_length encryptedPayload > MAX_PAYLOAD_SIZE then Invalid ''Payload too large''
     else Valid)"

text \<open>The character class \<open>[A-Za-z0-9]\<close>.\<close>

definition alnum :: "16 word \<Rightarrow> bool" where
  "alnum c \<longleftrightarrow> (0x41 \<le> c \<and> c \<le> 0x5A) \<or> (0x61 \<le> c \<and> c \<le> 0x7A) \<or> (0x30 \<le> c \<and> c \<le> 0x39)"

text \<open>\<open>/^[A-Za-z0-9]+$/.test(id)\<close>: one or more characters, all of the class.\<close>

definition alnum_regex :: "jsstring \<Rightarrow> bool" where
  "alnum_regex s \<longleftrightarrow> s \<noteq> [] \<and> list_all alnum s"

fun str_of :: "jsval \<Rightarrow> jsstring" where
  "str_of (JStr s) = s"
| "str_of _ = []"

definition validateSecretId :: "jsval \<Rightarrow> validation" where
  "validateSecretId secret_id =
    (if \<not> truthy secret_id \<or> \<not> is_JStr secret_id then Invalid ''Invalid ID''
     else if str_length secret_id > MAX_ID_LENGTH then Invalid ''Invalid ID length''
     else if \<not> alnum_regex (str_of secret_id) then Invalid ''Invalid ID format''
     else Valid)"

section \<open>The effective TTL (\<open>effectiveKvTtl\<close>)\<close>

text \<open>
  \<open>CONFIG.TTL_MAP[expiryOption]\<close> is a property read with a computed key: the key is
  first converted to a string (\<open>ToPropertyKey\<close>), then looked up among the own properties
  of the object literal and, when it is not there, on its prototype \<open>Object.prototype\<close>.

  \<open>ToString\<close> of a Number is the runtime's \<open>Number::toString\<close>; it is a parameter here.
  An array converts through \<open>Array.prototype.join\<close> (\<open>null\<close> and \<open>undefined\<close>
  elements give the empty string). A parsed object converts to \<open>[object Object]\<close>
  through \<open>Object.prototype.toString\<close>, unless it has an own property \<open>toString\<close>:
  that one is not callable, \<open>valueOf\<close> returns no primitive, and the conversion throws
  a TypeError.
\<close>

fun ToString :: "(jsnumber \<Rightarrow> jsstring) \<Rightarrow> jsval \<Rightarrow> exn + jsstring"
  and join :: "(jsnumber \<Rightarrow> jsstring) \<Rightarrow> jsval list \<Rightarrow> exn + jsstring"
  and join_element :: "(jsnumber \<Rightarrow> jsstring) \<Rightarrow> jsval \<Rightarrow> exn + jsstring"
where
  "ToString ns JUndefined = Inr (js_lit ''undefined'')"
| "ToString ns JNull = Inr (js_lit ''null'')"
| "ToString ns (JBool b) = Inr (if b then js_lit ''true'' else js_lit ''false'')"
| "ToString ns (JNum n) = Inr (ns n)"
| "ToString ns (JStr s) = Inr s"
| "ToString ns (JArr xs) = join ns xs"
| "ToString ns (JObj ps) =
     (if js_lit ''toString'' \<in> fst ` set ps then Inl TypeError
      else Inr (js_lit ''[object Object]''))"
| "join ns [] = Inr []"
| "join ns [x] = join_element ns x"
| "join ns (x # y # ys) =
     (case join_element ns x of
        Inl e \<Rightarrow> Inl e
      | Inr s \<Rightarrow>
          (case join ns (y # ys) of
             Inl e \<Rightarrow> Inl e
           | Inr t \<Rightarrow> Inr (s @ js_lit '','' @ t)))"
| "join_element ns JUndefined = Inr []"
| "join_element ns JNull = Inr []"
| "join_element ns (JBool b) = ToString ns (JBool b)"
| "join_element ns (JNum n) = ToString ns (JNum n)"
| "join_element ns (JStr s) = ToString ns (JStr s)"
| "join_element ns (JArr xs) = ToString ns (JArr xs)"
| "join_element ns (JObj ps) = ToString ns (JObj ps)"

text \<open>The properties of \<open>Object.prototype\<close>: every one is a function or an object.\<close>

definition Object_prototype :: "jsstring list" where
  "Object_prototype = map js_lit
    [''constructor'', ''hasOwnProperty'', ''isPrototypeOf'', ''propertyIsEnumerable'',
     ''toLocaleString'', ''toString'', ''valueOf'', ''__proto__'',
     ''__defineGetter__'', ''__defineSetter__'', ''__lookupGetter__'', ''__lookupSetter__'']"

text \<open>What \<open>CONFIG.TTL_MAP[key]\<close> evaluates to.\<close>

datatype property = Number real | Builtin | Undefined

definition TTL_MAP_get :: "jsstring \<Rightarrow> property" where
  "TTL_MAP_get key =
    (case map_of TTL_MAP key of
       Some n \<Rightarrow> Number n
     | None \<Rightarrow> if key \<in> set Object_prototype then Builtin else Undefined)"

fun property_truthy :: "property \<Rightarrow> bool" where
  "property_truthy (Number n) = (n \<noteq> 0)"
| "property_truthy Builtin = True"
| "property_truthy Undefined = False"

text \<open>\<open>x || d\<close>\<close>

definition or_else :: "property \<Rightarrow> property \<Rightarrow> property" where
  "or_else x d = (if property_truthy x then x else d)"

text \<open>
  \<open>ToNumber\<close>, as \<open>Math.max\<close> applies it to its arguments: a function or an object of
  the runtime converts through its string form, which is no numeric literal.
\<close>

fun ToNumber :: "property \<Rightarrow> jsnumber" where
  "ToNumber (Number n) = Num n"
| "ToNumber Builtin = NaN"
| "ToNumber Undefined = NaN"

fun Math_max :: "jsnumber \<Rightarrow> jsnumber \<Rightarrow> jsnumber" where
  "Math_max NaN y = NaN"
| "Math_max x NaN = NaN"
| "Math_max PosInfinity y = PosInfinity"
| "Math_max x PosInfinity = PosInfinity"
| "Math_max NegInfinity y = y"
| "Math_max x NegInfinity = x"
| "Math_max (Num a) (Num b) = Num (max a b)"

text \<open>
  \<open>Math.max(readOnce ? CONFIG.READ_ONCE_TTL : (CONFIG.TTL_MAP[expiryOption] ||
  CONFIG.DEFAULT_TTL), CONFIG.MIN_TTL)\<close>. The table is read only when \<open>readOnce\<close> is falsy.
\<close>

definition effectiveKvTtl :: "(jsnumber \<Rightarrow> jsstring) \<Rightarrow> jsval \<Rightarrow> jsval \<Rightarrow> exn + jsnumber" where
  "effectiveKvTtl ns expiryOption readOnce =
    (if truthy readOnce then Inr (Math_max (Num READ_ONCE_TTL) (Num MIN_TTL))
     else
       (case ToString ns expiryOption of
          Inl e \<Rightarrow> Inl e
        | Inr key \<Rightarrow>
            Inr (Math_max (ToNumber (or_else (TTL_MAP_get key) (Number DEFAULT_TTL)))
                          (Num MIN_TTL))))"

section \<open>The key-value binding \<open>SECRETS_KV\<close>\<close>

text \<open>
  The store is a collaborator of the program. It is modelled as a map from keys to the
  value, metadata and lifetime written with them, together with the list of calls made so
  far and an outage oracle: the call number \<open>n\<close> (counting from 0) is rejected when
  \<open>outage n\<close> holds. A \<open>put\<close> is also rejected when its \<open>expirationTtl\<close> is not a
  number of at least 60. A call that is not rejected takes effect when it is made. Expiry
  of entries and writers other than this program are not part of a call: between two
  calls of a run nothing else touches the map.
\<close>

record kv_entry =
  kv_value :: jsstring
  kv_metadata :: jsval
  kv_ttl :: jsnumber

datatype kv_call =
    Get jsstring
  | GetWithMetadata jsstring
  | Put jsstring jsstring jsnumber jsval
  | Delete jsstring

record kv_namespace =
  entries :: "jsstring \<rightharpoonup> kv_entry"
  history :: "kv_call list"
  outage :: "nat \<Rightarrow> bool"

definition called :: "kv_call \<Rightarrow> kv_namespace \<Rightarrow> kv_namespace" where
  "called c ns = ns\<lparr>history := history ns @ [c]\<rparr>"

definition rejected :: "kv_namespace \<Rightarrow> bool" where
  "rejected ns = outage ns (length (history ns))"

definition kv_get :: "kv_namespace \<Rightarrow> jsstring \<Rightarrow> (exn + jsstring option) \<times> kv_namespace" where
  "kv_get ns key =
    (if rejected ns then (Inl BackendError, called (Get key) ns)
     else (Inr (map_option kv_value (entries ns key)), called (Get key) ns))"

record kv_result =
  res_value :: "jsstring option"
  res_metadata :: jsval

definition kv_getWithMetadata ::
  "kv_namespace \<Rightarrow> jsstring \<Rightarrow> (exn + kv_result) \<times> kv_namespace" where
  "kv_getWithMetadata ns key =
    (if rejected ns then (Inl BackendError, called (GetWithMetadata key) ns)
     else
       (Inr (case entries ns key of
               None \<Rightarrow> \<lparr>res_value = None, res_metadata = JNull\<rparr>
             | Some e \<Rightarrow> \<lparr>res_value = Some (kv_value e), res_metadata = kv_metadata e\<rparr>),
        called (GetWithMetadata key) ns))"

fun ttl_accepted :: "jsnumber \<Rightarrow> bool" where
  "ttl_accepted (Num t) = (60 \<le> t)"
| "ttl_accepted PosInfinity = False"
| "ttl_accepted NegInfinity = False"
| "ttl_accepted NaN = False"

definition kv_put ::
  "kv_namespace \<Rightarrow> jsstring \<Rightarrow> jsstring \<Rightarrow> jsnumber \<Rightarrow> jsval \<Rightarrow> (exn + unit) \<times> kv_namespace" where
  "kv_put ns key val expirationTtl metadata =
    (if rejected ns \<or> \<not> ttl_accepted expirationTtl
     then (Inl BackendError, called (Put key val expirationTtl metadata) ns)
     else
       (Inr (),
        called (Put key val expirationTtl metadata)
          (ns\<lparr>entries := (entries ns)
                 (key \<mapsto> \<lparr>kv_value = val, kv_metadata = metadata, kv_ttl = expirationTtl\<rparr>)\<rparr>)))"

definition kv_delete :: "kv_namespace \<Rightarrow> jsstring \<Rightarrow> (exn + unit) \<times> kv_namespace" where
  "kv_delete ns key =
    (if rejected ns then (Inl BackendError, called (Delete key) ns)
     else (Inr (), called (Delete key) (ns\<lparr>entries := (entries ns)(key := None)\<rparr>)))"

section \<open>Requests, responses and the state a handler runs in\<close>

datatype body =
    Error string
  | SecretId jsstring
  | Secret jsstring jsval
  | NoContent

text \<open>\<open>c.json(body, status)\<close>; the status is 200 when the source gives none.\<close>

datatype response = Response nat body

fun status :: "response \<Rightarrow> nat" where
  "status (Response n b) = n"

text \<open>
  What the runtime supplies to a request: the random byte stream behind
  \<open>crypto.getRandomValues\<close>, the value of \<open>Date.now()\<close>, \<open>Number::toString\<close>, and the
  digest \<open>crypto.subtle.digest('SHA-256', new TextEncoder().encode(s))\<close> of a string.
\<close>

record runtime =
  random :: "nat \<Rightarrow> 8 word"
  Date_now :: real
  Number_toString :: "jsnumber \<Rightarrow> jsstring"
  sha256 :: "jsstring \<Rightarrow> exn + 8 word list"

text \<open>
  The state: the store, the messages written by \<open>console.error\<close>, the number of random
  bytes drawn, and the promises handed to \<open>executionCtx.waitUntil\<close> that have not
  settled yet. Such a promise is the outcome of a \<open>delete\<close> call that has been made
  already: it resolves, or it rejects with the error of the store.
\<close>

record world =
  SECRETS_KV :: kv_namespace
  console :: "string list"
  drawn :: nat
  pending :: "(exn + unit) list"

definition console_error :: "string \<Rightarrow> world \<Rightarrow> world" where
  "console_error msg w = w\<lparr>console := console w @ [msg]\<rparr>"

section \<open>Rate-limit middleware\<close>

record request =
  req_method :: string
  CF_Connecting_IP :: "jsstring option"
  User_Agent :: "jsstring option"

text \<open>\<open>c.req.header(name) || fallback\<close>: a missing or empty header gives the fallback.\<close>

definition header_or :: "jsstring option \<Rightarrow> jsstring \<Rightarrow> jsstring" where
  "header_or h fallback = (case h of None \<Rightarrow> fallback | Some v \<Rightarrow> if v = [] then fallback else v)"

text \<open>\<open>b.toString(16).padStart(2, '0')\<close>\<close>

definition hex2 :: "8 word \<Rightarrow> jsstring" where
  "hex2 b =
    [js_lit ''0123456789abcdef'' ! (unat b div 16), js_lit ''0123456789abcdef'' ! (unat b mod 16)]"

definition getFingerprint :: "runtime \<Rightarrow> request \<Rightarrow> exn + jsstring" where
  "getFingerprint rt req =
    (let ip = header_or (CF_Connecting_IP req) (js_lit ''0.0.0.0'');
         ua = header_or (User_Agent req) (js_lit ''unknown'')
     in case sha256 rt (ip @ js_lit ''-'' @ ua) of
          Inl e \<Rightarrow> Inl e
        | Inr hashArray \<Rightarrow> Inr (concat (map hex2 hashArray)))"

text \<open>
  A limiter binding: \<open>limit({ key })\<close> resolves to an object whose \<open>success\<close> flag is
  the result, or rejects. A binding that is not configured is \<open>None\<close>.
\<close>

type_synonym limiter = "jsstring \<Rightarrow> exn + bool"

record env =
  LIMITER_SHORT :: "limiter option"
  LIMITER_OK :: "limiter option"

text \<open>\<open>Promise.all\<close> of two promises: both calls are made; it rejects when one does.\<close>

fun Promise_all :: "exn + 'a \<Rightarrow> exn + 'b \<Rightarrow> exn + ('a \<times> 'b)" where
  "Promise_all (Inr a) (Inr b) = Inr (a, b)"
| "Promise_all (Inl e) _ = Inl e"
| "Promise_all _ (Inl e) = Inl e"

text \<open>
  The middleware either answers itself or calls \<open>next()\<close>; it returns what it does and
  the messages it writes with \<open>console.error\<close>.
\<close>

datatype decision = Next | Respond response

definition check_limits :: "runtime \<Rightarrow> limiter \<Rightarrow> limiter \<Rightarrow> request \<Rightarrow> exn + (bool \<times> bool)" where
  "check_limits rt short long req =
    (case getFingerprint rt req of
       Inl e \<Rightarrow> Inl e
     | Inr fingerprint \<Rightarrow> Promise_all (short fingerprint) (long fingerprint))"

definition rate_limit :: "runtime \<Rightarrow> env \<Rightarrow> request \<Rightarrow> decision \<times> string list" where
  "rate_limit rt e req =
    (if req_method req = ''OPTIONS'' then (Next, [])
     else
       (case (LIMITER_SHORT e, LIMITER_OK e) of
          (Some short, Some long) \<Rightarrow>
            (case check_limits rt short long req of
               Inr (shortLimit, longLimit) \<Rightarrow>
                 if \<not> shortLimit then
                   (Respond (Response 429 (Error ''Too Many Requests (Rate limit exceeded: 30s)'')), [])
                 else if \<not> longLimit then
                   (Respond (Response 429 (Error ''Too Many Requests (Rate limit exceeded: Daily)'')), [])
                 else (Next, [])
             | Inl ex \<Rightarrow> (Next, [''Rate Limit Error:'']))
        | _ \<Rightarrow>
            (Respond (Response 500 (Error ''Server configuration error'')),
             [''Rate Limiter bindings missing''])))"

text \<open>
  The \<open>cors\<close> middleware of the framework is registered first. It answers a preflight
  (\<open>OPTIONS\<close>) request itself, with 204 and no body, and calls \<open>next()\<close> for every other
  method. The headers it sets are not part of a response here.
\<close>

definition cors :: "request \<Rightarrow> decision" where
  "cors req = (if req_method req = ''OPTIONS'' then Respond (Response 204 NoContent) else Next)"

text \<open>
  A route under \<open>/api/*\<close>: the two middlewares in the order they are registered, then the
  handler when both call \<open>next()\<close>.
\<close>

definition api ::
  "runtime \<Rightarrow> env \<Rightarrow> request \<Rightarrow> (world \<Rightarrow> response \<times> world) \<Rightarrow> world \<Rightarrow> response \<times> world" where
  "api rt e req handler w =
    (case cors req of
       Respond r \<Rightarrow> (r, w)
     | Next \<Rightarrow>
         (case rate_limit rt e req of
            (Next, msgs) \<Rightarrow> handler (w\<lparr>console := console w @ msgs\<rparr>)
          | (Respond r, msgs) \<Rightarrow> (r, w\<lparr>console := console w @ msgs\<rparr>)))"

section \<open>The route \<open>POST /api/create\<close>\<close>

text \<open>\<open>const { encryptedPayload, expiryOption, readOnce } = body\<close>\<close>

definition destructure :: "jsval \<Rightarrow> exn + (jsval \<times> jsval \<times> jsval)" where
  "destructure body =
    (case get_prop body (js_lit ''encryptedPayload'') of
       Inl e \<Rightarrow> Inl e
     | Inr encryptedPayload \<Rightarrow>
         (case get_prop body (js_lit ''expiryOption'') of
            Inl e \<Rightarrow> Inl e
          | Inr expiryOption \<Rightarrow>
              (case get_prop body (js_lit ''readOnce'') of
                 Inl e \<Rightarrow> Inl e
               | Inr readOnce \<Rightarrow> Inr (encryptedPayload, expiryOption, readOnce))))"

text \<open>\<open>!existing\<close> on the result of \<open>get\<close>: \<open>null\<close> and the empty string are falsy.\<close>

fun truthy_value :: "jsstring option \<Rightarrow> bool" where
  "truthy_value None = False"
| "truthy_value (Some s) = (s \<noteq> [])"

text \<open>
  The \<open>while (attempts < 3)\<close> loop. \<open>secretId\<close> is \<open>None\<close> while the variable is still
  \<open>undefined\<close>. The loop returns the values of \<open>secretId\<close> and \<open>attempts\<close> at its exit,
  or the exception thrown by \<open>get\<close>.
\<close>

function id_loop ::
  "runtime \<Rightarrow> jsstring option \<Rightarrow> nat \<Rightarrow> world \<Rightarrow> (exn + (jsstring option \<times> nat)) \<times> world" where
  "id_loop rt secretId attempts w =
    (if attempts < 3 then
       (let candidate = generateId (getRandomValues (random rt) (drawn w) ID_LENGTH);
            w1 = w\<lparr>drawn := drawn w + ID_LENGTH\<rparr>;
            r = kv_get (SECRETS_KV w1) candidate;
            w2 = w1\<lparr>SECRETS_KV := snd r\<rparr>
        in case fst r of
             Inl e \<Rightarrow> (Inl e, w2)
           | Inr existing \<Rightarrow>
               if \<not> truthy_value existing then (Inr (Some candidate, attempts), w2)
               else id_loop rt (Some candidate) (attempts + 1) w2)
     else (Inr (secretId, attempts), w))"
  by pat_completeness auto
termination
  by (relation "measure (\<lambda>(rt, secretId, attempts, w). 3 - attempts)") auto

declare id_loop.simps [simp del]

definition make_metadata :: "runtime \<Rightarrow> jsval \<Rightarrow> jsval \<Rightarrow> jsval" where
  "make_metadata rt expiryOption readOnce =
    JObj [(js_lit ''readOnce'', JBool (truthy readOnce)),
          (js_lit ''creationTime'', JNum (Num (Date_now rt))),
          (js_lit ''userExpiryOption'', expiryOption)]"

text \<open>
  The body of the outer \<open>try\<close>, after the request body has been parsed. A \<open>put\<close> under
  a key that is still \<open>undefined\<close> would throw; the loop runs at least once, so the key
  is always set when \<open>attempts < 3\<close>.
\<close>

definition create_try :: "runtime \<Rightarrow> jsval \<Rightarrow> world \<Rightarrow> (exn + response) \<times> world" where
  "create_try rt body w =
    (case destructure body of
       Inl e \<Rightarrow> (Inl e, w)
     | Inr (encryptedPayload, expiryOption, readOnce) \<Rightarrow>
         (case validatePayload encryptedPayload of
            Invalid msg \<Rightarrow> (Inr (Response 400 (Error msg)), w)
          | Valid \<Rightarrow>
              (case id_loop rt None 0 w of
                 (Inl e, w1) \<Rightarrow> (Inl e, w1)
               | (Inr (secretId, attempts), w1) \<Rightarrow>
                   if attempts \<ge> 3 then
                     (Inr (Response 503 (Error ''Service busy, please try again'')),
                      console_error ''ID collision exhaust'' w1)
                   else
                     (case effectiveKvTtl (Number_toString rt) expiryOption readOnce of
                        Inl e \<Rightarrow> (Inl e, w1)
                      | Inr ttl \<Rightarrow>
                          (case secretId of
                             None \<Rightarrow> (Inl TypeError, w1)
                           | Some key \<Rightarrow>
                               (let metadata = make_metadata rt expiryOption readOnce;
                                    r = kv_put (SECRETS_KV w1) key (str_of encryptedPayload)
                                          ttl metadata;
                                    w2 = w1\<lparr>SECRETS_KV := snd r\<rparr>
                                in case fst r of
                                     Inl e \<Rightarrow> (Inl e, w2)
                                   | Inr _ \<Rightarrow> (Inr (Response 200 (SecretId key)), w2)))))))"

text \<open>
  The handler. The request body is \<open>None\<close> when \<open>c.req.json()\<close> throws. Every exception
  of the \<open>try\<close> body is caught, logged and answered with 500.
\<close>

definition create_handler :: "runtime \<Rightarrow> jsval option \<Rightarrow> world \<Rightarrow> response \<times> world" where
  "create_handler rt req_json w =
    (case req_json of
       None \<Rightarrow> (Response 400 (Error ''Invalid JSON''), w)
     | Some body \<Rightarrow>
         (case create_try rt body w of
            (Inr res, w') \<Rightarrow> (res, w')
          | (Inl e, w') \<Rightarrow>
              (Response 500 (Error ''Failed to create secret''), console_error ''Create Error:'' w')))"

section \<open>The route \<open>GET /api/secret/:id\<close>\<close>

text \<open>
  On a read-once secret the handler calls \<open>SECRETS_KV.delete(id)\<close> itself, inside the
  \<open>try\<close> and before it builds the response. It does not await the promise: it attaches
  the \<open>catch\<close> handler and hands the promise to \<open>waitUntil\<close>. So the store sees the
  call at that point, and whether the call fails shows only when the promise settles.
\<close>

definition read_try :: "jsstring \<Rightarrow> world \<Rightarrow> (exn + response) \<times> world" where
  "read_try secret_id w =
    (case validateSecretId (JStr secret_id) of
       Invalid msg \<Rightarrow> (Inr (Response 400 (Error msg)), w)
     | Valid \<Rightarrow>
         (let r = kv_getWithMetadata (SECRETS_KV w) secret_id;
              w1 = w\<lparr>SECRETS_KV := snd r\<rparr>
          in case fst r of
               Inl e \<Rightarrow> (Inl e, w1)
             | Inr result \<Rightarrow>
                 if \<not> truthy_value (res_value result) then
                   (Inr (Response 404 (Error ''Secret not found or expired'')), w1)
                 else
                   (let val = (case res_value result of None \<Rightarrow> [] | Some v \<Rightarrow> v);
                        metadata = res_metadata result;
                        w2 = (if truthy (get_prop_opt metadata (js_lit ''readOnce''))
                              then (let d = kv_delete (SECRETS_KV w1) secret_id
                                    in w1\<lparr>SECRETS_KV := snd d, pending := pending w1 @ [fst d]\<rparr>)
                              else w1)
                    in (Inr (Response 200 (Secret val metadata)), w2))))"

definition read_handler :: "jsstring \<Rightarrow> world \<Rightarrow> response \<times> world" where
  "read_handler secret_id w =
    (case read_try secret_id w of
       (Inr res, w') \<Rightarrow> (res, w')
     | (Inl e, w') \<Rightarrow>
         (Response 500 (Error ''Failed to retrieve secret''), console_error ''Retrieve Error:'' w'))"

text \<open>
  A promise handed to \<open>waitUntil\<close> settles after the handler has returned. The
  \<open>catch\<close> handler \<open>err => console.error('Delete Error:', err)\<close> runs when it rejects;
  nothing runs when it resolves.
\<close>

definition on_settled :: "exn + unit \<Rightarrow> world \<Rightarrow> world" where
  "on_settled promise w =
    (case promise of Inl err \<Rightarrow> console_error ''Delete Error:'' w | Inr _ \<Rightarrow> w)"

fun settle_all :: "(exn + unit) list \<Rightarrow> world \<Rightarrow> world" where
  "settle_all [] w = w"
| "settle_all (promise # promises) w = settle_all promises (on_settled promise w)"

text \<open>All pending promises settle, in the order they were handed over.\<close>

definition settle :: "world \<Rightarrow> world" where
  "settle w = settle_all (pending w) (w\<lparr>pending := []\<rparr>)"

section \<open>Notions used in the statements\<close>

text \<open>The id drawn by \<open>generateId()\<close> when \<open>pos\<close> random bytes have been used.\<close>

definition candidate :: "runtime \<Rightarrow> nat \<Rightarrow> jsstring" where
  "candidate rt pos = generateId (getRandomValues (random rt) pos ID_LENGTH)"

text \<open>A key is occupied when \<open>get\<close> returns a truthy value for it.\<close>

definition occupied :: "kv_namespace \<Rightarrow> jsstring \<Rightarrow> bool" where
  "occupied ns key = truthy_value (map_option kv_value (entries ns key))"

text \<open>The state after one pass of the loop: an id drawn and looked up.\<close>

definition attempted :: "runtime \<Rightarrow> world \<Rightarrow> world" where
  "attempted rt w =
     w\<lparr>drawn := drawn w + ID_LENGTH,
       SECRETS_KV := called (Get (candidate rt (drawn w))) (SECRETS_KV w)\<rparr>"

fun is_Get :: "kv_call \<Rightarrow> bool" where
  "is_Get (Get k) = True"
| "is_Get _ = False"

text \<open>The 256 values of a byte, and those that \<open>generateId\<close> maps to a character.\<close>

definition all_bytes :: "8 word list" where
  "all_bytes = map word_of_nat [0 ..< 256]"

definition preimages :: "16 word \<Rightarrow> 8 word list" where
  "preimages c = filter (\<lambda>v. id_char v = c) all_bytes"

section \<open>Example inputs\<close>

definition example_runtime :: runtime where
  "example_runtime =
    \<lparr>random = (\<lambda>n. word_of_nat (n * 37)), Date_now = 1700000000000,
     Number_toString = (\<lambda>n. js_lit ''0''), sha256 = (\<lambda>s. Inr [])\<rparr>"

text \<open>A random source that only yields zero bytes: every id is sixteen times \<open>A\<close>.\<close>

definition stuck_runtime :: runtime where
  "stuck_runtime =
    \<lparr>random = (\<lambda>n. 0), Date_now = 1700000000000,
     Number_toString = (\<lambda>n. js_lit ''0''), sha256 = (\<lambda>s. Inr [])\<rparr>"

definition empty_world :: world where
  "empty_world =
    \<lparr>SECRETS_KV = \<lparr>entries = Map.empty, history = [], outage = (\<lambda>n. False)\<rparr>,
     console = [], drawn = 0, pending = []\<rparr>"

text \<open>A store that rejects the fourth call made to it, and only that one.\<close>

definition flaky_world :: world where
  "flaky_world =
    \<lparr>SECRETS_KV = \<lparr>entries = Map.empty, history = [], outage = (\<lambda>n. n = 3)\<rparr>,
     console = [], drawn = 0, pending = []\<rparr>"

definition crowded_world :: world where
  "crowded_world =
    \<lparr>SECRETS_KV =
       \<lparr>entries = [js_lit ''AAAAAAAAAAAAAAAA'' \<mapsto>
                     \<lparr>kv_value = js_lit ''old'', kv_metadata = JNull, kv_ttl = Num 300\<rparr>],
        history = [], outage = (\<lambda>n. False)\<rparr>,
     console = [], drawn = 0, pending = []\<rparr>"

definition body_5min :: jsval where
  "body_5min =
    JObj [(js_lit ''encryptedPayload'', JStr (js_lit ''abc123'')),
          (js_lit ''expiryOption'', JStr (js_lit ''5min'')),
          (js_lit ''readOnce'', JBool False)]"

definition body_read_once :: jsval where
  "body_read_once =
    JObj [(js_lit ''encryptedPayload'', JStr (js_lit ''x'')),
          (js_lit ''readOnce'', JBool True)]"

definition body_empty_payload :: jsval where
  "body_empty_payload = JObj [(js_lit ''encryptedPayload'', JStr [])]"

definition body_array_option :: jsval where
  "body_array_option =
    JObj [(js_lit ''encryptedPayload'', JStr (js_lit ''x'')),
          (js_lit ''expiryOption'', JArr [JStr (js_lit ''5min'')])]"

definition body_inherited_option :: jsval where
  "body_inherited_option =
    JObj [(js_lit ''encryptedPayload'', JStr (js_lit ''x'')),
          (js_lit ''expiryOption'', JStr (js_lit ''constructor''))]"

definition get_request :: request where
  "get_request = \<lparr>req_method = ''GET'', CF_Connecting_IP = None, User_Agent = None\<rparr>"

definition options_request :: request where
  "options_request = \<lparr>req_method = ''OPTIONS'', CF_Connecting_IP = None, User_Agent = None\<rparr>"

definition env_unbound :: env where
  "env_unbound = \<lparr>LIMITER_SHORT = None, LIMITER_OK = None\<rparr>"

definition limiter_allowing :: limiter where
  "limiter_allowing key = Inr True"

definition limiter_denying :: limiter where
  "limiter_denying key = Inr False"

definition limiter_failing :: limiter where
  "limiter_failing key = Inl BackendError"

definition env_denying :: env where
  "env_denying = \<lparr>LIMITER_SHORT = Some limiter_denying, LIMITER_OK = Some limiter_denying\<rparr>"

definition env_broken :: env where
  "env_broken = \<lparr>LIMITER_SHORT = Some limiter_failing, LIMITER_OK = Some limiter_allowing\<rparr>"

definition env_allowing :: env where
  "env_allowing = \<lparr>LIMITER_SHORT = Some limiter_allowing, LIMITER_OK = Some limiter_allowing\<rparr>"

definition env_daily_exceeded :: env where
  "env_daily_exceeded =
    \<lparr>LIMITER_SHORT = Some limiter_allowing, LIMITER_OK = Some limiter_denying\<rparr>"

definition env_half_bound :: env where
  "env_half_bound = \<lparr>LIMITER_SHORT = Some limiter_allowing, LIMITER_OK = None\<rparr>"

section \<open>Payload validation\<close>

text \<open>
  C9. Payload validation is meant to give an absent, a non-string, an empty and an
  oversized payload four different reasons. It does not: the empty string is falsy, so the
  first test already rejects it with the reason of an absent payload, and so it does a
  falsy non-string such as \<open>0\<close>. The reason \<open>Payload cannot be empty\<close> is never given.
\<close>

theorem validatePayload_empty_as_absent:
  "validatePayload (JStr []) = Invalid ''Encrypted payload is required'' \<and>
   validatePayload JUndefined = Invalid ''Encrypted payload is required'' \<and>
   validatePayload (JNum (Num 0)) = Invalid ''Encrypted payload is required''"
  by (simp add: validatePayload_def)

lemma validatePayload_never_empty_reason:
  "validatePayload p \<noteq> Invalid ''Payload cannot be empty''"
  by (cases p) (auto simp: validatePayload_def)

section \<open>Identifier characters\<close>

lemma length_characters: "length characters = 62"
  by (simp add: characters_def js_lit_def)

lemma distinct_characters: "distinct characters"
  by (simp add: characters_def js_lit_def)

lemma id_char_eq_iff:
  assumes "i < 62"
  shows "id_char v = characters ! i \<longleftrightarrow> unat v mod 62 = i"
proof -
  have "unat v mod 62 < length characters" by (simp add: length_characters)
  moreover have "i < length characters" using assms by (simp add: length_characters)
  ultimately show ?thesis
    using distinct_characters
    by (simp add: id_char_def length_characters nth_eq_iff_index_eq)
qed

lemma unat_byte_of_nat: "n < 256 \<Longrightarrow> unat (word_of_nat n :: 8 word) = n"
  by (simp add: unat_of_nat)

lemma preimages_residues:
  assumes "i < 62"
  shows "length (preimages (characters ! i)) = length (filter (\<lambda>n. n mod 62 = i) [0 ..< 256])"
proof -
  have "filter (\<lambda>v. id_char v = characters ! i) (map word_of_nat [0 ..< 256])
      = map word_of_nat (filter (\<lambda>n. n mod 62 = i) [0 ..< 256])"
    unfolding filter_map
    by (rule arg_cong [where f = "map word_of_nat"], rule filter_cong)
       (simp_all add: id_char_eq_iff [OF assms] unat_byte_of_nat)
  then show ?thesis by (simp add: preimages_def all_bytes_def)
qed

lemma residue_class:
  assumes "(i::nat) < 62"
  shows "{n. n < 256 \<and> n mod 62 = i} = (\<lambda>k. 62 * k + i) ` {k. 62 * k + i < 256}"
proof (intro set_eqI iffI)
  fix n assume "n \<in> {n. n < 256 \<and> n mod 62 = i}"
  then have n: "n < 256" "n mod 62 = i" by simp_all
  have "n = 62 * (n div 62) + n mod 62" by simp
  with n have "n = 62 * (n div 62) + i" by simp
  moreover from this n have "62 * (n div 62) + i < 256" by simp
  ultimately show "n \<in> (\<lambda>k. 62 * k + i) ` {k. 62 * k + i < 256}" by blast
next
  fix n assume "n \<in> (\<lambda>k. 62 * k + i) ` {k. 62 * k + i < 256}"
  then obtain k where "n = 62 * k + i" "62 * k + i < 256" by blast
  with assms show "n \<in> {n. n < 256 \<and> n mod 62 = i}" by simp
qed

lemma residue_card:
  assumes "(i::nat) < 62"
  shows "card {n. n < 256 \<and> n mod 62 = i} = (if i < 8 then 5 else 4)"
proof -
  have inj: "inj_on (\<lambda>k. 62 * k + i) A" for A :: "nat set"
    by (rule inj_onI) simp
  have ks: "{k. 62 * k + i < 256} = {..< (if i < 8 then 5 else 4)}"
    using assms by auto
  have "card {n. n < 256 \<and> n mod 62 = i} = card {k. 62 * k + i < 256}"
    by (simp only: residue_class [OF assms] card_image [OF inj])
  also have "\<dots> = (if i < 8 then 5 else 4)"
    by (simp only: ks card_lessThan)
  finally show ?thesis .
qed

lemma residue_count:
  assumes "i < 62"
  shows "length (filter (\<lambda>n. n mod 62 = i) [0 ..< 256]) = (if i < 8 then 5 else 4)"
proof -
  have "length (filter (\<lambda>n. n mod 62 = i) [0 ..< 256])
      = card ({n. n mod 62 = i} \<inter> set [0 ..< 256])"
    by (rule distinct_length_filter) simp
  also have "{n. n mod 62 = i} \<inter> set [0 ..< 256] = {n. n < 256 \<and> n mod 62 = i}"
    by auto
  finally show ?thesis by (simp only: residue_card [OF assms])
qed

lemma preimages_count:
  "i < 62 \<Longrightarrow> length (preimages (characters ! i)) = (if i < 8 then 5 else 4)"
  by (simp only: preimages_residues residue_count)

lemma all_bytes_complete: "set all_bytes = UNIV" "distinct all_bytes"
proof -
  show "set all_bytes = UNIV"
  proof (intro set_eqI iffI UNIV_I)
    fix v :: "8 word"
    have "unat v < 256" using unsigned_less [of v, where 'a = nat] by simp
    moreover have "v = word_of_nat (unat v)" by simp
    ultimately show "v \<in> set all_bytes"
      unfolding all_bytes_def by (metis (no_types) atLeast0LessThan imageI lessThan_iff set_map set_upt)
  qed
  have "inj_on (word_of_nat :: nat \<Rightarrow> 8 word) (set [0 ..< 256])"
    by (rule inj_on_inverseI [where g = unat]) (simp add: unat_byte_of_nat)
  then show "distinct all_bytes"
    by (simp add: all_bytes_def distinct_map)
qed

text \<open>
  C5 (as stated). The specification takes the mapping from random bytes to identifier characters to be
  unbiased: the 256 byte values are a multiple of the 62 characters, or rejection sampling
  makes every character equally likely. Neither holds for \<open>v % characters.length\<close>: 256
  is no multiple of 62, every byte is used, and \<open>A\<close> (index 0) has five preimages
  where \<open>I\<close> (index 8) has four.
\<close>

theorem id_char_biased:
  "\<not> length characters dvd 256 \<and>
   length (preimages (characters ! 0)) = 5 \<and>
   length (preimages (characters ! 8)) = 4"
  using preimages_count [of 0] preimages_count [of 8]
  by (simp add: length_characters)

text \<open>
  C5 (amended). Every byte value is mapped to the character at its residue modulo 62,
  without rejection: the first \<open>256 mod 62 = 8\<close> characters of the alphabet have five
  preimages among the 256 byte values, each of the other 54 has four.
\<close>

theorem id_char_preimages:
  "i < length characters \<Longrightarrow>
     length (preimages (characters ! i)) = (if i < 256 mod length characters then 5 else 4)"
  by (simp add: length_characters preimages_count)

theorem id_char_preimages_witness:
  "(61::nat) < length characters \<and> length (preimages (characters ! 61)) = 4"
  using id_char_preimages [of 61]
  by (simp add: length_characters)

section \<open>The effective TTL\<close>

lemmas ttl_eval = effectiveKvTtl_def TTL_MAP_get_def TTL_MAP_def Object_prototype_def js_lit_def
  or_else_def MIN_TTL_def DEFAULT_TTL_def READ_ONCE_TTL_def

text \<open>
  C3. The effective TTL is meant to be total, to be the read-once lifetime, a table value
  or the one-day default, and to be at least 60. With \<open>readOnce\<close> falsy it is none of
  these when \<open>expiryOption\<close> names a property that the table inherits from
  \<open>Object.prototype\<close>: \<open>CONFIG.TTL_MAP['constructor']\<close> is a function, which is truthy,
  so the default is not taken, and \<open>Math.max\<close> of it and 60 is NaN, which is not at
  least 60. And the computation throws when \<open>expiryOption\<close> is an object with an own
  property \<open>toString\<close>, which cannot be converted to a property key.
\<close>

theorem effectiveKvTtl_inherited_property:
  "effectiveKvTtl (Number_toString example_runtime) (JStr (js_lit ''constructor'')) JUndefined
     = Inr NaN \<and>
   \<not> ttl_accepted NaN \<and>
   effectiveKvTtl (Number_toString example_runtime) (JObj [(js_lit ''toString'', JNull)]) JUndefined
     = Inl TypeError"
  by (simp add: ttl_eval)

text \<open>
  What does hold: a truthy \<open>readOnce\<close> gives the read-once lifetime whatever the option
  is, and a string that names neither a bucket nor a property of \<open>Object.prototype\<close>, or
  an absent option, gives the one-day default.
\<close>

lemma effectiveKvTtl_read_once:
  "truthy readOnce \<Longrightarrow> effectiveKvTtl ns expiryOption readOnce = Inr (Num 86400)"
  by (simp add: effectiveKvTtl_def READ_ONCE_TTL_def MIN_TTL_def)

lemma effectiveKvTtl_bucket:
  "\<not> truthy readOnce \<Longrightarrow> map_of TTL_MAP key = Some n \<Longrightarrow>
     effectiveKvTtl ns (JStr key) readOnce = Inr (Num n) \<and> 60 \<le> n"
  by (auto simp: ttl_eval split: if_splits)

lemma effectiveKvTtl_default:
  "\<not> truthy readOnce \<Longrightarrow> map_of TTL_MAP key = None \<Longrightarrow> key \<notin> set Object_prototype \<Longrightarrow>
     effectiveKvTtl ns (JStr key) readOnce = Inr (Num 86400)"
  by (simp add: effectiveKvTtl_def TTL_MAP_get_def or_else_def DEFAULT_TTL_def MIN_TTL_def)

lemma effectiveKvTtl_absent:
  "\<not> truthy readOnce \<Longrightarrow> effectiveKvTtl ns JUndefined readOnce = Inr (Num 86400)"
  by (simp add: ttl_eval)

section \<open>Admission: the rate-limit middleware\<close>

lemma cors_passes: "req_method req \<noteq> ''OPTIONS'' \<Longrightarrow> cors req = Next"
  by (simp add: cors_def)

lemma api_respond:
  "req_method req \<noteq> ''OPTIONS'' \<Longrightarrow> rate_limit rt e req = (Respond r, msgs) \<Longrightarrow>
    api rt e req handler w = (r, w\<lparr>console := console w @ msgs\<rparr>)"
  by (simp add: api_def cors_passes)

lemma api_next:
  "req_method req \<noteq> ''OPTIONS'' \<Longrightarrow> rate_limit rt e req = (Next, msgs) \<Longrightarrow>
    api rt e req handler w = handler (w\<lparr>console := console w @ msgs\<rparr>)"
  by (simp add: api_def cors_passes)

lemma api_preflight:
  "req_method req = ''OPTIONS'' \<Longrightarrow> api rt e req handler w = (Response 204 NoContent, w)"
  by (simp add: api_def cors_def)

lemma check_limits_throws_iff:
  "(\<exists>ex. check_limits rt short long req = Inl ex) \<longleftrightarrow>
     (\<exists>ex. getFingerprint rt req = Inl ex) \<or>
     (\<exists>fp ex. getFingerprint rt req = Inr fp \<and> (short fp = Inl ex \<or> long fp = Inl ex))"
proof (cases "getFingerprint rt req")
  case (Inl ex)
  then show ?thesis by (simp add: check_limits_def)
next
  case (Inr fp)
  then show ?thesis
    by (cases "short fp"; cases "long fp") (auto simp: check_limits_def)
qed

text \<open>What the middleware does with the two answers.\<close>

lemma rate_limit_answered:
  assumes "req_method req \<noteq> ''OPTIONS''"
    and "LIMITER_SHORT e = Some short" and "LIMITER_OK e = Some long"
    and "getFingerprint rt req = Inr fingerprint"
    and "short fingerprint = Inr shortLimit" and "long fingerprint = Inr longLimit"
  shows "rate_limit rt e req =
    (if \<not> shortLimit
     then (Respond (Response 429 (Error ''Too Many Requests (Rate limit exceeded: 30s)'')), [])
     else if \<not> longLimit
     then (Respond (Response 429 (Error ''Too Many Requests (Rate limit exceeded: Daily)'')), [])
     else (Next, []))"
proof -
  have "check_limits rt short long req = Inr (shortLimit, longLimit)"
    using assms by (simp add: check_limits_def)
  then show ?thesis using assms by (simp add: rate_limit_def)
qed

lemma rate_limit_30s_only_short:
  assumes "req_method req \<noteq> ''OPTIONS''"
    and "LIMITER_SHORT e = Some short" and "LIMITER_OK e = Some long"
    and "getFingerprint rt req = Inr fingerprint"
    and "fst (rate_limit rt e req) =
           Respond (Response 429 (Error ''Too Many Requests (Rate limit exceeded: 30s)''))"
  shows "short fingerprint = Inr False"
proof (cases "short fingerprint")
  case (Inl ex)
  then have "check_limits rt short long req = Inl ex"
    using assms(4) by (simp add: check_limits_def)
  with assms show ?thesis by (simp add: rate_limit_def)
next
  case s: (Inr shortLimit)
  show ?thesis
  proof (cases "long fingerprint")
    case (Inl ex)
    then have "check_limits rt short long req = Inl ex"
      using assms(4) s by (simp add: check_limits_def)
    with assms show ?thesis by (simp add: rate_limit_def)
  next
    case (Inr longLimit)
    from rate_limit_answered [OF assms(1-4) s Inr] assms(5) s
    show ?thesis by (simp split: if_splits)
  qed
qed

text \<open>
  C7. When both limiters have answered and the short-window limiter denies the request, the
  answer is 429 with the short-window reason (\<open>30s\<close>), whatever the long-window limiter
  says; the handler behind the middleware does not run. That reason belongs to the short
  window: a request that only the long-window limiter denies is answered 429 with the
  other reason (\<open>Daily\<close>), and the middleware gives the reason \<open>30s\<close> only when the
  short-window limiter has denied the request.
\<close>

theorem rate_limit_short_first:
  assumes "req_method req \<noteq> ''OPTIONS''"
    and "LIMITER_SHORT e = Some short" and "LIMITER_OK e = Some long"
    and "getFingerprint rt req = Inr fingerprint"
  shows "(short fingerprint = Inr False \<and> long fingerprint = Inr longLimit \<longrightarrow>
            rate_limit rt e req =
              (Respond (Response 429 (Error ''Too Many Requests (Rate limit exceeded: 30s)'')), []) \<and>
            api rt e req handler w =
              (Response 429 (Error ''Too Many Requests (Rate limit exceeded: 30s)''), w)) \<and>
         (short fingerprint = Inr True \<and> long fingerprint = Inr False \<longrightarrow>
            rate_limit rt e req =
              (Respond (Response 429 (Error ''Too Many Requests (Rate limit exceeded: Daily)'')), []) \<and>
            api rt e req handler w =
              (Response 429 (Error ''Too Many Requests (Rate limit exceeded: Daily)''), w)) \<and>
         (fst (rate_limit rt e req) =
            Respond (Response 429 (Error ''Too Many Requests (Rate limit exceeded: 30s)'')) \<longrightarrow>
            short fingerprint = Inr False) \<and>
         ''Too Many Requests (Rate limit exceeded: 30s)'' \<noteq>
           ''Too Many Requests (Rate limit exceeded: Daily)''"
proof (intro conjI impI)
  assume h: "short fingerprint = Inr False \<and> long fingerprint = Inr longLimit"
  then have r: "rate_limit rt e req =
      (Respond (Response 429 (Error ''Too Many Requests (Rate limit exceeded: 30s)'')), [])"
    using rate_limit_answered [OF assms, of False longLimit] by simp
  then show "rate_limit rt e req =
      (Respond (Response 429 (Error ''Too Many Requests (Rate limit exceeded: 30s)'')), [])" .
  from api_respond [OF assms(1) r]
  show "api rt e req handler w =
      (Response 429 (Error ''Too Many Requests (Rate limit exceeded: 30s)''), w)" by simp
next
  assume h: "short fingerprint = Inr True \<and> long fingerprint = Inr False"
  then have r: "rate_limit rt e req =
      (Respond (Response 429 (Error ''Too Many Requests (Rate limit exceeded: Daily)'')), [])"
    using rate_limit_answered [OF assms, of True False] by simp
  then show "rate_limit rt e req =
      (Respond (Response 429 (Error ''Too Many Requests (Rate limit exceeded: Daily)'')), [])" .
  from api_respond [OF assms(1) r]
  show "api rt e req handler w =
      (Response 429 (Error ''Too Many Requests (Rate limit exceeded: Daily)''), w)" by simp
next
  assume "fst (rate_limit rt e req) =
      Respond (Response 429 (Error ''Too Many Requests (Rate limit exceeded: 30s)''))"
  then show "short fingerprint = Inr False"
    by (rule rate_limit_30s_only_short [OF assms])
next
  show "''Too Many Requests (Rate limit exceeded: 30s)'' \<noteq>
      ''Too Many Requests (Rate limit exceeded: Daily)''" by simp
qed

theorem rate_limit_short_first_witness:
  "rate_limit example_runtime env_denying get_request =
     (Respond (Response 429 (Error ''Too Many Requests (Rate limit exceeded: 30s)'')), []) \<and>
   rate_limit example_runtime env_daily_exceeded get_request =
     (Respond (Response 429 (Error ''Too Many Requests (Rate limit exceeded: Daily)'')), [])"
proof -
  have m: "req_method get_request \<noteq> ''OPTIONS''" by (simp add: get_request_def)
  have d: "LIMITER_SHORT env_denying = Some limiter_denying"
    "LIMITER_OK env_denying = Some limiter_denying"
    by (simp_all add: env_denying_def)
  have x: "LIMITER_SHORT env_daily_exceeded = Some limiter_allowing"
    "LIMITER_OK env_daily_exceeded = Some limiter_denying"
    by (simp_all add: env_daily_exceeded_def)
  have f: "getFingerprint example_runtime get_request = Inr []"
    by (simp add: getFingerprint_def example_runtime_def)
  have l: "limiter_denying [] = Inr False" "limiter_allowing [] = Inr True"
    by (simp_all add: limiter_denying_def limiter_allowing_def)
  show ?thesis
    using rate_limit_short_first [OF m d f, of False] rate_limit_short_first [OF m x f] l
    by simp
qed

text \<open>
  C6 (as stated). The specification has it that a request is allowed through whenever the
  limiter infrastructure is unreachable or errors. The middleware first tests that both
  limiter bindings exist: when one is missing the limiter cannot be reached, and the request
  is answered with 500 and not passed on.
\<close>

theorem rate_limit_unbound_rejects:
  "rate_limit example_runtime env_unbound get_request =
     (Respond (Response 500 (Error ''Server configuration error'')),
      [''Rate Limiter bindings missing''])"
  by (simp add: rate_limit_def env_unbound_def get_request_def)

text \<open>
  C6 (amended). For every request other than a preflight: when both limiter bindings exist
  and the admission check throws (the fingerprint digest or one of the two limiter calls
  fails), the middleware calls \<open>next()\<close>, so the handler answers the request, and it
  writes \<open>Rate Limit Error:\<close> to the log first; a normal allow decision calls \<open>next()\<close>
  and writes nothing, so the two are told apart in the log; and when one of the two
  bindings or both are missing, the request is not passed on: it is answered 500 with
  \<open>Server configuration error\<close>, and \<open>Rate Limiter bindings missing\<close> is logged. A
  preflight request is passed on by the middleware whatever the bindings are.
\<close>

theorem rate_limit_fail_open:
  "(req_method req \<noteq> ''OPTIONS'' \<and> LIMITER_SHORT e = Some short \<and> LIMITER_OK e = Some long \<and>
    check_limits rt short long req = Inl ex \<longrightarrow>
      rate_limit rt e req = (Next, [''Rate Limit Error:'']) \<and>
      api rt e req handler w = handler (console_error ''Rate Limit Error:'' w)) \<and>
   (req_method req \<noteq> ''OPTIONS'' \<and> LIMITER_SHORT e = Some short \<and> LIMITER_OK e = Some long \<and>
    check_limits rt short long req = Inr (True, True) \<longrightarrow>
      rate_limit rt e req = (Next, []) \<and> api rt e req handler w = handler w) \<and>
   (req_method req \<noteq> ''OPTIONS'' \<and> (LIMITER_SHORT e = None \<or> LIMITER_OK e = None) \<longrightarrow>
      rate_limit rt e req =
        (Respond (Response 500 (Error ''Server configuration error'')),
         [''Rate Limiter bindings missing'']) \<and>
      api rt e req handler w =
        (Response 500 (Error ''Server configuration error''),
         console_error ''Rate Limiter bindings missing'' w)) \<and>
   (req_method req = ''OPTIONS'' \<longrightarrow> rate_limit rt e req = (Next, []))"
proof (intro conjI impI)
  assume h: "req_method req \<noteq> ''OPTIONS'' \<and> LIMITER_SHORT e = Some short \<and>
    LIMITER_OK e = Some long \<and> check_limits rt short long req = Inl ex"
  then have r: "rate_limit rt e req = (Next, [''Rate Limit Error:''])"
    by (simp add: rate_limit_def)
  then show "rate_limit rt e req = (Next, [''Rate Limit Error:''])" .
  from api_next [OF _ r] h
  show "api rt e req handler w = handler (console_error ''Rate Limit Error:'' w)"
    by (simp add: console_error_def)
next
  assume h: "req_method req \<noteq> ''OPTIONS'' \<and> LIMITER_SHORT e = Some short \<and>
    LIMITER_OK e = Some long \<and> check_limits rt short long req = Inr (True, True)"
  then have r: "rate_limit rt e req = (Next, [])"
    by (simp add: rate_limit_def)
  then show "rate_limit rt e req = (Next, [])" .
  from api_next [OF _ r] h show "api rt e req handler w = handler w" by simp
next
  assume h: "req_method req \<noteq> ''OPTIONS'' \<and> (LIMITER_SHORT e = None \<or> LIMITER_OK e = None)"
  then have r: "rate_limit rt e req =
      (Respond (Response 500 (Error ''Server configuration error'')),
       [''Rate Limiter bindings missing''])"
    by (cases "LIMITER_SHORT e"; cases "LIMITER_OK e") (auto simp: rate_limit_def)
  then show "rate_limit rt e req =
      (Respond (Response 500 (Error ''Server configuration error'')),
       [''Rate Limiter bindings missing''])" .
  from api_respond [OF _ r] h
  show "api rt e req handler w =
      (Response 500 (Error ''Server configuration error''),
       console_error ''Rate Limiter bindings missing'' w)"
    by (simp add: console_error_def)
next
  assume "req_method req = ''OPTIONS''"
  then show "rate_limit rt e req = (Next, [])" by (simp add: rate_limit_def)
qed

theorem rate_limit_fail_open_witness:
  "check_limits example_runtime limiter_failing limiter_allowing get_request = Inl BackendError \<and>
   rate_limit example_runtime env_broken get_request = (Next, [''Rate Limit Error:'']) \<and>
   check_limits example_runtime limiter_allowing limiter_allowing get_request = Inr (True, True) \<and>
   rate_limit example_runtime env_allowing get_request = (Next, []) \<and>
   LIMITER_OK env_half_bound = None \<and>
   rate_limit example_runtime env_half_bound get_request =
     (Respond (Response 500 (Error ''Server configuration error'')),
      [''Rate Limiter bindings missing'']) \<and>
   rate_limit example_runtime env_unbound options_request = (Next, [])"
proof -
  have m: "req_method get_request \<noteq> ''OPTIONS''" by (simp add: get_request_def)
  have o: "req_method options_request = ''OPTIONS''" by (simp add: options_request_def)
  have b: "LIMITER_SHORT env_broken = Some limiter_failing"
    "LIMITER_OK env_broken = Some limiter_allowing"
    by (simp_all add: env_broken_def)
  have a: "LIMITER_SHORT env_allowing = Some limiter_allowing"
    "LIMITER_OK env_allowing = Some limiter_allowing"
    by (simp_all add: env_allowing_def)
  have h: "LIMITER_OK env_half_bound = None" by (simp add: env_half_bound_def)
  have c1: "check_limits example_runtime limiter_failing limiter_allowing get_request
     = Inl BackendError"
    by (simp add: check_limits_def getFingerprint_def example_runtime_def
        limiter_failing_def limiter_allowing_def)
  have c2: "check_limits example_runtime limiter_allowing limiter_allowing get_request
     = Inr (True, True)"
    by (simp add: check_limits_def getFingerprint_def example_runtime_def limiter_allowing_def)
  show ?thesis
    using rate_limit_fail_open [of get_request env_broken limiter_failing limiter_allowing
            example_runtime BackendError]
          rate_limit_fail_open [of get_request env_allowing limiter_allowing limiter_allowing
            example_runtime]
          rate_limit_fail_open [of get_request env_half_bound]
          rate_limit_fail_open [of options_request env_unbound]
          m o a b h c1 c2
    by simp
qed

section \<open>Validation comes before the store\<close>

lemma create_handler_invalid_payload:
  assumes "destructure body = Inr (p, x, r)" and "validatePayload p = Invalid msg"
  shows "create_handler rt (Some body) w = (Response 400 (Error msg), w)"
  using assms by (simp add: create_handler_def create_try_def)

lemma read_handler_invalid_id:
  assumes "validateSecretId (JStr sid) = Invalid msg"
  shows "read_handler sid w = (Response 400 (Error msg), w)"
  using assms by (simp add: read_handler_def read_try_def)

lemma not_valid_iff: "\<not> is_valid v \<longleftrightarrow> (\<exists>msg. v = Invalid msg)"
  by (cases v) simp_all

text \<open>
  C8. When \<open>validatePayload\<close> rejects the payload of a create request, or
  \<open>validateSecretId\<close> rejects the id of a read request, the handler answers 400 with
  the validation's reason and the state is the one it started from: no call is added to
  the store's history (no read, no write, no lookup), no entry changes, and no random
  bytes are drawn (no id is allocated).
\<close>

theorem validation_before_store:
  "(destructure body = Inr (p, x, r) \<and> \<not> is_valid (validatePayload p) \<longrightarrow>
      (\<exists>msg. create_handler rt (Some body) w = (Response 400 (Error msg), w))) \<and>
   (\<not> is_valid (validateSecretId (JStr sid)) \<longrightarrow>
      (\<exists>msg. read_handler sid w = (Response 400 (Error msg), w)))"
  by (auto simp: not_valid_iff create_handler_invalid_payload read_handler_invalid_id)

theorem validation_before_store_witness:
  "destructure body_empty_payload = Inr (JStr [], JUndefined, JUndefined) \<and>
   \<not> is_valid (validatePayload (JStr [])) \<and>
   create_handler example_runtime (Some body_empty_payload) empty_world =
     (Response 400 (Error ''Encrypted payload is required''), empty_world) \<and>
   \<not> is_valid (validateSecretId (JStr (js_lit ''no-id''))) \<and>
   read_handler (js_lit ''no-id'') empty_world =
     (Response 400 (Error ''Invalid ID format''), empty_world)"
proof -
  have d: "destructure body_empty_payload = Inr (JStr [], JUndefined, JUndefined)"
    by (simp add: destructure_def body_empty_payload_def js_lit_def)
  have v: "\<not> is_valid (validatePayload (JStr []))"
    by (simp add: validatePayload_def)
  have i: "\<not> is_valid (validateSecretId (JStr (js_lit ''no-id'')))"
    by (simp add: validateSecretId_def js_lit_def MAX_ID_LENGTH_def alnum_regex_def alnum_def)
  from validation_before_store [of body_empty_payload "JStr []" JUndefined JUndefined
      example_runtime empty_world "js_lit ''no-id''"] d v i
  obtain m1 m2 where
    c: "create_handler example_runtime (Some body_empty_payload) empty_world
          = (Response 400 (Error m1), empty_world)"
    and r: "read_handler (js_lit ''no-id'') empty_world = (Response 400 (Error m2), empty_world)"
    by blast
  have "m1 = ''Encrypted payload is required''"
    using c d by (simp add: create_handler_def create_try_def validatePayload_def)
  moreover have "m2 = ''Invalid ID format''"
    using r by (simp add: read_handler_def read_try_def validateSecretId_def js_lit_def
        MAX_ID_LENGTH_def alnum_regex_def alnum_def)
  ultimately show ?thesis using c r d v i by simp
qed

text \<open>
  A body that is the JSON value \<open>null\<close> never reaches \<open>validatePayload\<close>: the
  destructuring throws, and the answer is 500. The store is not touched either.
\<close>

lemma create_handler_null_body:
  "create_handler rt (Some JNull) w =
     (Response 500 (Error ''Failed to create secret''), console_error ''Create Error:'' w)"
  by (simp add: create_handler_def create_try_def destructure_def)

section \<open>The allocation loop\<close>

lemma characters_alnum: "list_all alnum characters"
  by (simp add: characters_def js_lit_def alnum_def)

lemma alnum_id_char: "alnum (id_char v)"
proof -
  have "unat v mod length characters < length characters"
    by (simp add: length_characters)
  then have "characters ! (unat v mod length characters) \<in> set characters"
    by (rule nth_mem)
  with characters_alnum show ?thesis
    by (simp add: id_char_def list_all_iff)
qed

lemma length_candidate: "length (candidate rt pos) = ID_LENGTH"
  by (simp add: candidate_def generateId_def getRandomValues_def)

lemma validateSecretId_candidate: "validateSecretId (JStr (candidate rt pos)) = Valid"
proof -
  have "list_all alnum (candidate rt pos)"
    by (simp add: candidate_def generateId_def list_all_iff alnum_id_char)
  moreover have "candidate rt pos \<noteq> []"
    using length_candidate [of rt pos] by (auto simp: ID_LENGTH_def)
  ultimately show ?thesis
    using length_candidate [of rt pos]
    by (simp add: validateSecretId_def alnum_regex_def ID_LENGTH_def MAX_ID_LENGTH_def)
qed

lemma id_loop_step:
  "a < 3 \<Longrightarrow> id_loop rt s a w =
     (if rejected (SECRETS_KV w) then (Inl BackendError, attempted rt w)
      else if \<not> occupied (SECRETS_KV w) (candidate rt (drawn w))
           then (Inr (Some (candidate rt (drawn w)), a), attempted rt w)
      else id_loop rt (Some (candidate rt (drawn w))) (a + 1) (attempted rt w))"
  by (subst id_loop.simps)
     (simp add: Let_def kv_get_def candidate_def occupied_def attempted_def rejected_def called_def)

lemma id_loop_exit: "\<not> a < 3 \<Longrightarrow> id_loop rt s a w = (Inr (s, a), w)"
  by (subst id_loop.simps) simp

lemma attempted_frame:
  "entries (SECRETS_KV (attempted rt w)) = entries (SECRETS_KV w)"
  "outage (SECRETS_KV (attempted rt w)) = outage (SECRETS_KV w)"
  "console (attempted rt w) = console w"
  "pending (attempted rt w) = pending w"
  "drawn (attempted rt w) = drawn w + ID_LENGTH"
  "history (SECRETS_KV (attempted rt w)) = history (SECRETS_KV w) @ [Get (candidate rt (drawn w))]"
  by (simp_all add: attempted_def called_def)

lemma occupied_attempted: "occupied (SECRETS_KV (attempted rt w)) = occupied (SECRETS_KV w)"
  by (rule ext) (simp add: occupied_def attempted_frame)

text \<open>The loop only draws ids and looks them up: at most \<open>3 - attempts\<close> times.\<close>

lemma id_loop_effects:
  "id_loop rt s a w = (res, w') \<Longrightarrow>
     entries (SECRETS_KV w') = entries (SECRETS_KV w) \<and>
     outage (SECRETS_KV w') = outage (SECRETS_KV w) \<and>
     console w' = console w \<and> pending w' = pending w \<and>
     (\<exists>cs. history (SECRETS_KV w') = history (SECRETS_KV w) @ map Get cs \<and>
           length cs \<le> 3 - a \<and> drawn w' = drawn w + length cs * ID_LENGTH)"
proof (induction "3 - a" arbitrary: a s w)
  case 0
  then have "w' = w" by (simp add: id_loop_exit)
  then show ?case by simp
next
  case (Suc n)
  then have a: "a < 3" and n: "n = 3 - (a + 1)" by simp_all
  let ?w = "attempted rt w"
  show ?case
  proof (cases "\<not> rejected (SECRETS_KV w) \<and> occupied (SECRETS_KV w) (candidate rt (drawn w))")
    case True
    with Suc.prems a
    have "id_loop rt (Some (candidate rt (drawn w))) (a + 1) ?w = (res, w')"
      by (simp add: id_loop_step)
    from Suc.hyps(1) [OF n this] obtain cs where
      f: "entries (SECRETS_KV w') = entries (SECRETS_KV w)"
         "outage (SECRETS_KV w') = outage (SECRETS_KV w)"
         "console w' = console w" "pending w' = pending w"
      and h: "history (SECRETS_KV w') = history (SECRETS_KV ?w) @ map Get cs"
      and l: "length cs \<le> 3 - (a + 1)"
      and d: "drawn w' = drawn ?w + length cs * ID_LENGTH"
      by (auto simp: attempted_frame)
    have "history (SECRETS_KV w') = history (SECRETS_KV w) @ map Get (candidate rt (drawn w) # cs)"
      using h by (simp add: attempted_frame)
    moreover have "length (candidate rt (drawn w) # cs) \<le> 3 - a"
      using l a by simp
    moreover have "drawn w' = drawn w + length (candidate rt (drawn w) # cs) * ID_LENGTH"
      using d by (simp add: attempted_frame)
    ultimately show ?thesis using f by blast
  next
    case False
    with Suc.prems a have w': "w' = ?w"
      by (auto simp: id_loop_step split: if_splits)
    have "history (SECRETS_KV w') = history (SECRETS_KV w) @ map Get [candidate rt (drawn w)]"
      by (simp add: w' attempted_frame)
    moreover have "length [candidate rt (drawn w)] \<le> 3 - a" using a by simp
    moreover have "drawn w' = drawn w + length [candidate rt (drawn w)] * ID_LENGTH"
      by (simp add: w' attempted_frame)
    ultimately have "\<exists>cs. history (SECRETS_KV w') = history (SECRETS_KV w) @ map Get cs \<and>
           length cs \<le> 3 - a \<and> drawn w' = drawn w + length cs * ID_LENGTH"
      by blast
    moreover have "entries (SECRETS_KV w') = entries (SECRETS_KV w)"
      "outage (SECRETS_KV w') = outage (SECRETS_KV w)"
      "console w' = console w" "pending w' = pending w"
      by (simp_all add: w' attempted_frame)
    ultimately show ?thesis by blast
  qed
qed

text \<open>An id that leaves the loop with \<open>attempts < 3\<close> was the last one looked up, and free.\<close>

lemma id_loop_accepts:
  "id_loop rt s a w = (Inr (s', n), w') \<Longrightarrow> n < 3 \<Longrightarrow>
     \<exists>pos. s' = Some (candidate rt pos) \<and> \<not> occupied (SECRETS_KV w) (candidate rt pos) \<and>
           history (SECRETS_KV w') \<noteq> [] \<and>
           last (history (SECRETS_KV w')) = Get (candidate rt pos) \<and>
           length (history (SECRETS_KV w)) < length (history (SECRETS_KV w'))"
proof (induction "3 - a" arbitrary: a s w)
  case 0
  then show ?case by (simp add: id_loop_exit)
next
  case (Suc k)
  then have a: "a < 3" and k: "k = 3 - (a + 1)" by simp_all
  let ?w = "attempted rt w"
  show ?case
  proof (cases "\<not> rejected (SECRETS_KV w) \<and> occupied (SECRETS_KV w) (candidate rt (drawn w))")
    case True
    with Suc.prems a
    have "id_loop rt (Some (candidate rt (drawn w))) (a + 1) ?w = (Inr (s', n), w')"
      by (simp add: id_loop_step)
    from Suc.hyps(1) [OF k this Suc.prems(2)] show ?thesis
      by (auto simp: occupied_attempted attempted_frame)
  next
    case False
    with Suc.prems a have "w' = ?w" "s' = Some (candidate rt (drawn w))"
      "\<not> occupied (SECRETS_KV w) (candidate rt (drawn w))"
      by (auto simp: id_loop_step split: if_splits)
    then show ?thesis by (auto simp: attempted_frame)
  qed
qed

section \<open>A successful create\<close>

lemma kv_put_cases:
  "kv_put ns key val ttl md =
     (if rejected ns \<or> \<not> ttl_accepted ttl
      then (Inl BackendError, called (Put key val ttl md) ns)
      else (Inr (), called (Put key val ttl md)
              (ns\<lparr>entries := (entries ns)(key \<mapsto> \<lparr>kv_value = val, kv_metadata = md, kv_ttl = ttl\<rparr>)\<rparr>)))"
  by (simp add: kv_put_def)

lemma create_handler_ok:
  assumes "create_handler rt (Some body) w = (Response 200 (SecretId sid), w1)"
  obtains p x r ttl pos where
    "destructure body = Inr (p, x, r)"
    "validatePayload p = Valid"
    "sid = candidate rt pos"
    "\<not> occupied (SECRETS_KV w) sid"
    "effectiveKvTtl (Number_toString rt) x r = Inr ttl"
    "ttl_accepted ttl"
    "entries (SECRETS_KV w1) = (entries (SECRETS_KV w))
        (sid \<mapsto> \<lparr>kv_value = str_of p, kv_metadata = make_metadata rt x r, kv_ttl = ttl\<rparr>)"
    "outage (SECRETS_KV w1) = outage (SECRETS_KV w)"
    "console w1 = console w" "pending w1 = pending w"
    "\<exists>cs. history (SECRETS_KV w1) =
        history (SECRETS_KV w) @ map Get cs @ [Put sid (str_of p) ttl (make_metadata rt x r)] \<and>
        cs \<noteq> [] \<and> last cs = sid \<and> length cs \<le> 3"
proof -
  from assms have t: "create_try rt body w = (Inr (Response 200 (SecretId sid)), w1)"
    by (auto simp: create_handler_def split: prod.splits sum.splits)
  obtain p x r where d: "destructure body = Inr (p, x, r)"
    using t by (cases "destructure body") (auto simp: create_try_def)
  have v: "validatePayload p = Valid"
    using t d by (cases "validatePayload p") (auto simp: create_try_def)
  obtain lr wl where l: "id_loop rt None 0 w = (lr, wl)"
    by (cases "id_loop rt None 0 w") blast
  obtain s n where lr: "lr = Inr (s, n)"
    using t d v l by (cases lr) (auto simp: create_try_def)
  have n: "n < 3"
    using t d v l lr by (cases "n < 3") (auto simp: create_try_def)
  obtain ttl where e: "effectiveKvTtl (Number_toString rt) x r = Inr ttl"
    using t d v l lr n
    by (cases "effectiveKvTtl (Number_toString rt) x r") (auto simp: create_try_def)
  from id_loop_accepts [OF l [unfolded lr] n] obtain pos where
    s: "s = Some (candidate rt pos)" and free: "\<not> occupied (SECRETS_KV w) (candidate rt pos)"
    and lst: "history (SECRETS_KV wl) \<noteq> []" "last (history (SECRETS_KV wl)) = Get (candidate rt pos)"
    and grow: "length (history (SECRETS_KV w)) < length (history (SECRETS_KV wl))"
    by blast
  from id_loop_effects [OF l] obtain cs where
    f: "entries (SECRETS_KV wl) = entries (SECRETS_KV w)"
       "outage (SECRETS_KV wl) = outage (SECRETS_KV w)"
       "console wl = console w" "pending wl = pending w"
    and h: "history (SECRETS_KV wl) = history (SECRETS_KV w) @ map Get cs" and c: "length cs \<le> 3"
    by auto
  let ?md = "make_metadata rt x r"
  let ?put = "kv_put (SECRETS_KV wl) (candidate rt pos) (str_of p) ttl ?md"
  have put: "fst ?put = Inr () \<and> sid = candidate rt pos \<and> w1 = wl\<lparr>SECRETS_KV := snd ?put\<rparr>"
    using t d v l lr n e s
    by (cases "fst ?put") (auto simp: create_try_def Let_def)
  then have acc: "\<not> rejected (SECRETS_KV wl)" "ttl_accepted ttl"
    by (auto simp: kv_put_cases split: if_splits)
  have w1: "w1 = wl\<lparr>SECRETS_KV := called (Put sid (str_of p) ttl ?md)
      ((SECRETS_KV wl)\<lparr>entries := (entries (SECRETS_KV wl))
          (sid \<mapsto> \<lparr>kv_value = str_of p, kv_metadata = ?md, kv_ttl = ttl\<rparr>)\<rparr>)\<rparr>"
    using put acc by (simp add: kv_put_cases)
  have cs: "cs \<noteq> []" using grow h by auto
  then have "last cs = sid"
    using lst h put by (simp add: last_map)
  with cs c have hist: "\<exists>cs. history (SECRETS_KV w1) =
        history (SECRETS_KV w) @ map Get cs @ [Put sid (str_of p) ttl ?md] \<and>
        cs \<noteq> [] \<and> last cs = sid \<and> length cs \<le> 3"
    using h by (auto simp: w1 called_def)
  show thesis
  proof (rule that [OF d v _ _ e acc(2) _ _ _ _ hist])
    show "sid = candidate rt pos" using put by simp
    show "\<not> occupied (SECRETS_KV w) sid" using free put by simp
    show "entries (SECRETS_KV w1) = (entries (SECRETS_KV w))
        (sid \<mapsto> \<lparr>kv_value = str_of p, kv_metadata = ?md, kv_ttl = ttl\<rparr>)"
      by (simp add: w1 called_def f)
    show "outage (SECRETS_KV w1) = outage (SECRETS_KV w)" by (simp add: w1 called_def f)
    show "console w1 = console w" by (simp add: w1 f)
    show "pending w1 = pending w" by (simp add: w1 f)
  qed
qed

section \<open>Reading and settling\<close>

lemma validatePayload_Valid: "validatePayload p = Valid \<Longrightarrow> p = JStr (str_of p) \<and> str_of p \<noteq> []"
  by (cases p) (auto simp: validatePayload_def split: if_splits)

lemma called_frame:
  "entries (called c ns) = entries ns" "outage (called c ns) = outage ns"
  "history (called c ns) = history ns @ [c]"
  by (simp_all add: called_def)

lemma read_handler_plain:
  assumes "validateSecretId (JStr sid) = Valid" and "\<not> rejected (SECRETS_KV w)"
    and "entries (SECRETS_KV w) sid = Some e" and "kv_value e \<noteq> []"
    and "\<not> truthy (get_prop_opt (kv_metadata e) (js_lit ''readOnce''))"
  shows "read_handler sid w =
    (Response 200 (Secret (kv_value e) (kv_metadata e)),
     w\<lparr>SECRETS_KV := called (GetWithMetadata sid) (SECRETS_KV w)\<rparr>)"
  using assms by (simp add: read_handler_def read_try_def kv_getWithMetadata_def Let_def)

lemma read_handler_read_once:
  assumes "validateSecretId (JStr sid) = Valid" and "\<not> rejected (SECRETS_KV w)"
    and "entries (SECRETS_KV w) sid = Some e" and "kv_value e \<noteq> []"
    and "truthy (get_prop_opt (kv_metadata e) (js_lit ''readOnce''))"
  shows "read_handler sid w =
    (Response 200 (Secret (kv_value e) (kv_metadata e)),
     (if rejected (called (GetWithMetadata sid) (SECRETS_KV w))
      then w\<lparr>SECRETS_KV := called (Delete sid) (called (GetWithMetadata sid) (SECRETS_KV w)),
              pending := pending w @ [Inl BackendError]\<rparr>
      else w\<lparr>SECRETS_KV := called (Delete sid)
                ((called (GetWithMetadata sid) (SECRETS_KV w))
                   \<lparr>entries := (entries (SECRETS_KV w))(sid := None)\<rparr>),
              pending := pending w @ [Inr ()]\<rparr>))"
  using assms
  by (simp add: read_handler_def read_try_def kv_getWithMetadata_def kv_delete_def Let_def
      called_frame)

lemma read_handler_missing:
  assumes "validateSecretId (JStr sid) = Valid" and "\<not> rejected (SECRETS_KV w)"
    and "entries (SECRETS_KV w) sid = None"
  shows "read_handler sid w =
    (Response 404 (Error ''Secret not found or expired''),
     w\<lparr>SECRETS_KV := called (GetWithMetadata sid) (SECRETS_KV w)\<rparr>)"
  using assms by (simp add: read_handler_def read_try_def kv_getWithMetadata_def Let_def)

lemma settle_all_frame:
  "SECRETS_KV (settle_all ps w) = SECRETS_KV w" "pending (settle_all ps w) = pending w"
  "drawn (settle_all ps w) = drawn w"
  by (induction ps arbitrary: w; simp add: on_settled_def console_error_def split: sum.splits)+

lemma settle_all_snoc: "settle_all (ps @ [p]) w = on_settled p (settle_all ps w)"
  by (induction ps arbitrary: w) simp_all

lemma console_settle_all:
  "console w = console w' \<Longrightarrow> console (settle_all ps w) = console (settle_all ps w')"
proof (induction ps arbitrary: w w')
  case Nil
  then show ?case by simp
next
  case (Cons p ps)
  have "console (on_settled p w) = console (on_settled p w')"
    using Cons.prems by (cases p) (simp_all add: on_settled_def console_error_def)
  from Cons.IH [OF this] show ?case by simp
qed

lemma settle_frame: "SECRETS_KV (settle w) = SECRETS_KV w" "pending (settle w) = []"
  by (simp_all add: settle_def settle_all_frame)

lemma console_settle_snoc:
  assumes "pending w2 = pending w1 @ [p]" and "console w2 = console w1"
  shows "console (settle w2) = console (on_settled p (settle w1))"
proof -
  have "console (settle w2) = console (on_settled p (settle_all (pending w1) (w2\<lparr>pending := []\<rparr>)))"
    by (simp add: settle_def assms(1) settle_all_snoc)
  also have "\<dots> = console (on_settled p (settle w1))"
    using console_settle_all [of "w2\<lparr>pending := []\<rparr>" "w1\<lparr>pending := []\<rparr>" "pending w1"] assms(2)
    by (simp add: settle_def on_settled_def console_error_def split: sum.splits)
  finally show ?thesis .
qed

lemma make_metadata_fields:
  "get_prop_opt (make_metadata rt x r) (js_lit ''readOnce'') = JBool (truthy r)"
  "get_prop_opt (make_metadata rt x r) (js_lit ''creationTime'') = JNum (Num (Date_now rt))"
  "get_prop_opt (make_metadata rt x r) (js_lit ''userExpiryOption'') = x"
  by (simp_all add: make_metadata_def get_prop_opt_def js_lit_def)

text \<open>
  C2. When a create request with a falsy \<open>readOnce\<close> is answered 200 with an id, a read
  of that id answers 200 with the payload of the request, unchanged, and with the metadata
  written at creation: \<open>readOnce\<close> false, the \<open>expiryOption\<close> of the request as
  \<open>userExpiryOption\<close>, and the creation time. A second read of the id gives the same
  answer. A read does nothing but the lookup: it adds the \<open>getWithMetadata\<close> call to the
  store's history, makes no delete call, hands no promise to \<open>waitUntil\<close> and leaves the
  entries as they are, so the secret stays readable. The reads follow the create with
  nothing else touching the store, and the store serves them.
\<close>

theorem create_then_read:
  assumes "create_handler rt (Some body) w = (Response 200 (SecretId sid), w1)"
    and "destructure body = Inr (p, x, r)" and "\<not> truthy r"
    and "\<not> rejected (SECRETS_KV w1)" and "read_handler sid w1 = (res1, w2)"
    and "\<not> rejected (SECRETS_KV w2)" and "read_handler sid w2 = (res2, w3)"
  shows "p = JStr (str_of p) \<and>
         res1 = Response 200 (Secret (str_of p) (make_metadata rt x r)) \<and>
         res2 = Response 200 (Secret (str_of p) (make_metadata rt x r)) \<and>
         get_prop_opt (make_metadata rt x r) (js_lit ''readOnce'') = JBool False \<and>
         get_prop_opt (make_metadata rt x r) (js_lit ''userExpiryOption'') = x \<and>
         get_prop_opt (make_metadata rt x r) (js_lit ''creationTime'') = JNum (Num (Date_now rt)) \<and>
         w2 = w1\<lparr>SECRETS_KV := called (GetWithMetadata sid) (SECRETS_KV w1)\<rparr> \<and>
         w3 = w2\<lparr>SECRETS_KV := called (GetWithMetadata sid) (SECRETS_KV w2)\<rparr> \<and>
         history (SECRETS_KV w3) =
           history (SECRETS_KV w1) @ [GetWithMetadata sid, GetWithMetadata sid] \<and>
         entries (SECRETS_KV w3) = entries (SECRETS_KV w1) \<and>
         pending w3 = pending w1 \<and> console w3 = console w1"
proof -
  from assms(1) obtain p' x' r' ttl pos where
    d: "destructure body = Inr (p', x', r')" and v: "validatePayload p' = Valid"
    and sid: "sid = candidate rt pos"
    and ent: "entries (SECRETS_KV w1) = (entries (SECRETS_KV w))
        (sid \<mapsto> \<lparr>kv_value = str_of p', kv_metadata = make_metadata rt x' r', kv_ttl = ttl\<rparr>)"
    by (rule create_handler_ok)
  from d assms(2) have eq: "p' = p" "x' = x" "r' = r" by simp_all
  let ?e = "\<lparr>kv_value = str_of p, kv_metadata = make_metadata rt x r, kv_ttl = ttl\<rparr>"
  have valid: "validateSecretId (JStr sid) = Valid"
    by (simp add: sid validateSecretId_candidate)
  have e1: "entries (SECRETS_KV w1) sid = Some ?e" using ent eq by simp
  have ne: "kv_value ?e \<noteq> []" using validatePayload_Valid [OF v] eq by simp
  have ro: "\<not> truthy (get_prop_opt (kv_metadata ?e) (js_lit ''readOnce''))"
    using assms(3) by (simp add: make_metadata_fields)
  from read_handler_plain [OF valid assms(4) e1 ne ro] assms(5)
  have r1: "res1 = Response 200 (Secret (str_of p) (make_metadata rt x r))"
    and w2: "w2 = w1\<lparr>SECRETS_KV := called (GetWithMetadata sid) (SECRETS_KV w1)\<rparr>"
    by simp_all
  have e2: "entries (SECRETS_KV w2) sid = Some ?e" using e1 by (simp add: w2 called_frame)
  from read_handler_plain [OF valid assms(6) e2 ne ro] assms(7)
  have r2: "res2 = Response 200 (Secret (str_of p) (make_metadata rt x r))"
    and w3: "w3 = w2\<lparr>SECRETS_KV := called (GetWithMetadata sid) (SECRETS_KV w2)\<rparr>"
    by simp_all
  have fr: "history (SECRETS_KV w3) =
           history (SECRETS_KV w1) @ [GetWithMetadata sid, GetWithMetadata sid]"
    "entries (SECRETS_KV w3) = entries (SECRETS_KV w1)"
    "pending w3 = pending w1" "console w3 = console w1"
    by (simp_all add: w3 w2 called_frame)
  have md: "p = JStr (str_of p)"
    "get_prop_opt (make_metadata rt x r) (js_lit ''readOnce'') = JBool False"
    "get_prop_opt (make_metadata rt x r) (js_lit ''userExpiryOption'') = x"
    "get_prop_opt (make_metadata rt x r) (js_lit ''creationTime'') = JNum (Num (Date_now rt))"
    using validatePayload_Valid [OF v] eq assms(3) by (simp_all add: make_metadata_fields)
  show ?thesis
    using r1 r2 w2 w3 fr md by blast
qed

lemma read_handler_outage:
  "outage (SECRETS_KV (snd (read_handler sid w))) = outage (SECRETS_KV w)"
  by (auto simp: read_handler_def read_try_def kv_getWithMetadata_def kv_delete_def Let_def
      called_def console_error_def split: validation.splits sum.splits if_splits)

lemmas create_eval = create_handler_def create_try_def destructure_def
  validatePayload_def MAX_PAYLOAD_SIZE_def js_lit_def id_loop.simps generateId_def
  getRandomValues_def ID_LENGTH_def id_char_def characters_def kv_get_def rejected_def
  called_def effectiveKvTtl_def TTL_MAP_get_def TTL_MAP_def Object_prototype_def or_else_def
  MIN_TTL_def DEFAULT_TTL_def READ_ONCE_TTL_def make_metadata_def kv_put_def upt_rec Let_def
  console_error_def

lemma example_create_5min:
  "fst (create_handler example_runtime (Some body_5min) empty_world) =
     Response 200 (SecretId (js_lit ''AlMxY9kDoP0bCnGr''))"
  by (simp add: example_runtime_def body_5min_def empty_world_def create_eval)

lemma never_rejected: "outage ns = (\<lambda>n. False) \<Longrightarrow> \<not> rejected ns"
  by (simp add: rejected_def)

lemma outage_empty_world: "outage (SECRETS_KV empty_world) = (\<lambda>n. False)"
  by (simp add: empty_world_def)

theorem create_then_read_witness:
  "fst (create_handler example_runtime (Some body_5min) empty_world) =
     Response 200 (SecretId (js_lit ''AlMxY9kDoP0bCnGr'')) \<and>
   fst (read_handler (js_lit ''AlMxY9kDoP0bCnGr'')
          (snd (create_handler example_runtime (Some body_5min) empty_world))) =
     Response 200 (Secret (js_lit ''abc123'')
       (make_metadata example_runtime (JStr (js_lit ''5min'')) (JBool False))) \<and>
   fst (read_handler (js_lit ''AlMxY9kDoP0bCnGr'')
          (snd (read_handler (js_lit ''AlMxY9kDoP0bCnGr'')
             (snd (create_handler example_runtime (Some body_5min) empty_world))))) =
     Response 200 (Secret (js_lit ''abc123'')
       (make_metadata example_runtime (JStr (js_lit ''5min'')) (JBool False))) \<and>
   pending (snd (read_handler (js_lit ''AlMxY9kDoP0bCnGr'')
          (snd (read_handler (js_lit ''AlMxY9kDoP0bCnGr'')
             (snd (create_handler example_runtime (Some body_5min) empty_world)))))) = []"
proof -
  let ?sid = "js_lit ''AlMxY9kDoP0bCnGr''"
  let ?c = "create_handler example_runtime (Some body_5min) empty_world"
  let ?r1 = "read_handler ?sid (snd ?c)"
  let ?r2 = "read_handler ?sid (snd ?r1)"
  have c: "?c = (Response 200 (SecretId ?sid), snd ?c)"
    using example_create_5min by (simp add: prod_eq_iff)
  have d: "destructure body_5min =
      Inr (JStr (js_lit ''abc123''), JStr (js_lit ''5min''), JBool False)"
    by (simp add: destructure_def body_5min_def js_lit_def)
  have p1: "pending (snd ?c) = []"
    using create_handler_ok [OF c] by (metis empty_world_def world.select_convs(4))
  have o1: "outage (SECRETS_KV (snd ?c)) = (\<lambda>n. False)"
    using create_handler_ok [OF c] outage_empty_world by metis
  have o2: "outage (SECRETS_KV (snd ?r1)) = (\<lambda>n. False)"
    using o1 by (simp add: read_handler_outage)
  have nt: "\<not> truthy (JBool False)" by simp
  have e1: "?r1 = (fst ?r1, snd ?r1)" by simp
  have e2: "?r2 = (fst ?r2, snd ?r2)" by simp
  note th = create_then_read [OF c d nt never_rejected [OF o1] e1 never_rejected [OF o2] e2]
  have st: "str_of (JStr (js_lit ''abc123'')) = js_lit ''abc123''" by simp
  from th have "fst ?r1 = Response 200 (Secret (str_of (JStr (js_lit ''abc123'')))
       (make_metadata example_runtime (JStr (js_lit ''5min'')) (JBool False)))"
    by (elim conjE)
  then have a1: "fst ?r1 = Response 200 (Secret (js_lit ''abc123'')
       (make_metadata example_runtime (JStr (js_lit ''5min'')) (JBool False)))"
    by (simp only: st)
  from th have "fst ?r2 = Response 200 (Secret (str_of (JStr (js_lit ''abc123'')))
       (make_metadata example_runtime (JStr (js_lit ''5min'')) (JBool False)))"
    by (elim conjE)
  then have a2: "fst ?r2 = Response 200 (Secret (js_lit ''abc123'')
       (make_metadata example_runtime (JStr (js_lit ''5min'')) (JBool False)))"
    by (simp only: st)
  from th have a3: "pending (snd ?r2) = pending (snd ?c)"
    by (elim conjE)
  show ?thesis
    by (intro conjI) (rule example_create_5min, rule a1, rule a2, simp only: a3 p1)
qed

section \<open>Read-once secrets\<close>

lemma example_create_read_once:
  "create_handler example_runtime (Some body_read_once) empty_world =
    (Response 200 (SecretId (js_lit ''AlMxY9kDoP0bCnGr'')),
     \<lparr>SECRETS_KV =
        \<lparr>entries = [js_lit ''AlMxY9kDoP0bCnGr'' \<mapsto>
            \<lparr>kv_value = js_lit ''x'',
             kv_metadata = make_metadata example_runtime JUndefined (JBool True),
             kv_ttl = Num 86400\<rparr>],
         history = [Get (js_lit ''AlMxY9kDoP0bCnGr''),
                    Put (js_lit ''AlMxY9kDoP0bCnGr'') (js_lit ''x'') (Num 86400)
                      (make_metadata example_runtime JUndefined (JBool True))],
         outage = (\<lambda>n. False)\<rparr>,
      console = [], drawn = 16, pending = []\<rparr>)"
  by (simp add: example_runtime_def body_read_once_def empty_world_def create_eval)

lemma example_create_read_once_flaky:
  "create_handler example_runtime (Some body_read_once) flaky_world =
    (Response 200 (SecretId (js_lit ''AlMxY9kDoP0bCnGr'')),
     \<lparr>SECRETS_KV =
        \<lparr>entries = [js_lit ''AlMxY9kDoP0bCnGr'' \<mapsto>
            \<lparr>kv_value = js_lit ''x'',
             kv_metadata = make_metadata example_runtime JUndefined (JBool True),
             kv_ttl = Num 86400\<rparr>],
         history = [Get (js_lit ''AlMxY9kDoP0bCnGr''),
                    Put (js_lit ''AlMxY9kDoP0bCnGr'') (js_lit ''x'') (Num 86400)
                      (make_metadata example_runtime JUndefined (JBool True))],
         outage = (\<lambda>n. n = 3)\<rparr>,
      console = [], drawn = 16, pending = []\<rparr>)"
  by (simp add: example_runtime_def body_read_once_def flaky_world_def create_eval)

text \<open>
  C1. When a create request with a truthy \<open>readOnce\<close> is answered 200 with an id, a
  read of that id whose lookup the store serves answers 200 with the payload, whether the
  store then accepts the delete or rejects it. The handler makes the delete call itself,
  right after the lookup, writes nothing to the log, and hands the promise of the call to
  \<open>waitUntil\<close>. When the store rejects the delete, the promise is a rejected one and the
  entries stay; its settling writes \<open>Delete Error:\<close> to the log and changes nothing
  else. When the store accepts the delete, the id has no entry any more and the settling
  writes nothing. After the settling no promise is pending, and every read of an id
  without an entry that the store serves answers 404.
\<close>

theorem read_once_lifecycle:
  assumes "create_handler rt (Some body) w = (Response 200 (SecretId sid), w1)"
    and "destructure body = Inr (p, x, r)" and "truthy r"
    and "\<not> rejected (SECRETS_KV w1)"
  shows "\<exists>w2. read_handler sid w1 = (Response 200 (Secret (str_of p) (make_metadata rt x r)), w2) \<and>
      p = JStr (str_of p) \<and>
      history (SECRETS_KV w2) = history (SECRETS_KV w1) @ [GetWithMetadata sid, Delete sid] \<and>
      console w2 = console w1 \<and>
      (rejected (called (GetWithMetadata sid) (SECRETS_KV w1)) \<longrightarrow>
         fst (read_handler sid w1) = Response 200 (Secret (str_of p) (make_metadata rt x r)) \<and>
         pending w2 = pending w1 @ [Inl BackendError] \<and>
         entries (SECRETS_KV w2) = entries (SECRETS_KV w1) \<and>
         console (settle w2) = console (settle w1) @ [''Delete Error:'']) \<and>
      (\<not> rejected (called (GetWithMetadata sid) (SECRETS_KV w1)) \<longrightarrow>
         pending w2 = pending w1 @ [Inr ()] \<and>
         entries (SECRETS_KV w2) = (entries (SECRETS_KV w1))(sid := None) \<and>
         console (settle w2) = console (settle w1) \<and>
         entries (SECRETS_KV (settle w2)) sid = None) \<and>
      SECRETS_KV (settle w2) = SECRETS_KV w2 \<and> pending (settle w2) = [] \<and>
      (\<forall>w3. entries (SECRETS_KV w3) sid = None \<and> \<not> rejected (SECRETS_KV w3) \<longrightarrow>
         read_handler sid w3 =
           (Response 404 (Error ''Secret not found or expired''),
            w3\<lparr>SECRETS_KV := called (GetWithMetadata sid) (SECRETS_KV w3)\<rparr>))"
proof -
  from assms(1) obtain p' x' r' ttl pos where
    d: "destructure body = Inr (p', x', r')" and v: "validatePayload p' = Valid"
    and sid: "sid = candidate rt pos"
    and ent: "entries (SECRETS_KV w1) = (entries (SECRETS_KV w))
        (sid \<mapsto> \<lparr>kv_value = str_of p', kv_metadata = make_metadata rt x' r', kv_ttl = ttl\<rparr>)"
    by (rule create_handler_ok)
  from d assms(2) have eq: "p' = p" "x' = x" "r' = r" by simp_all
  let ?e = "\<lparr>kv_value = str_of p, kv_metadata = make_metadata rt x r, kv_ttl = ttl\<rparr>"
  let ?ns = "called (GetWithMetadata sid) (SECRETS_KV w1)"
  let ?w2 = "if rejected ?ns
      then w1\<lparr>SECRETS_KV := called (Delete sid) ?ns, pending := pending w1 @ [Inl BackendError]\<rparr>
      else w1\<lparr>SECRETS_KV := called (Delete sid) (?ns\<lparr>entries := (entries (SECRETS_KV w1))(sid := None)\<rparr>),
              pending := pending w1 @ [Inr ()]\<rparr>"
  have valid: "validateSecretId (JStr sid) = Valid"
    by (simp add: sid validateSecretId_candidate)
  have e1: "entries (SECRETS_KV w1) sid = Some ?e" using ent eq by simp
  have ne: "kv_value ?e \<noteq> []" using validatePayload_Valid [OF v] eq by simp
  have ro: "truthy (get_prop_opt (kv_metadata ?e) (js_lit ''readOnce''))"
    using assms(3) by (simp add: make_metadata_fields)
  from read_handler_read_once [OF valid assms(4) e1 ne ro]
  have r1: "read_handler sid w1 = (Response 200 (Secret (str_of p) (make_metadata rt x r)), ?w2)"
    by simp
  have a: "p = JStr (str_of p)" using validatePayload_Valid [OF v] eq by simp
  have b: "history (SECRETS_KV ?w2) = history (SECRETS_KV w1) @ [GetWithMetadata sid, Delete sid]"
    "console ?w2 = console w1"
    by (simp_all add: called_frame)
  have f: "rejected ?ns \<longrightarrow>
         fst (read_handler sid w1) = Response 200 (Secret (str_of p) (make_metadata rt x r)) \<and>
         pending ?w2 = pending w1 @ [Inl BackendError] \<and>
         entries (SECRETS_KV ?w2) = entries (SECRETS_KV w1) \<and>
         console (settle ?w2) = console (settle w1) @ [''Delete Error:'']"
  proof
    assume rj: "rejected ?ns"
    then have pw: "pending ?w2 = pending w1 @ [Inl BackendError]" by simp
    from console_settle_snoc [OF pw b(2)]
    have "console (settle ?w2) = console (settle w1) @ [''Delete Error:'']"
      by (simp add: on_settled_def console_error_def)
    moreover have "fst (read_handler sid w1) =
        Response 200 (Secret (str_of p) (make_metadata rt x r))"
      by (simp only: r1 fst_conv)
    ultimately show
      "fst (read_handler sid w1) = Response 200 (Secret (str_of p) (make_metadata rt x r)) \<and>
         pending ?w2 = pending w1 @ [Inl BackendError] \<and>
         entries (SECRETS_KV ?w2) = entries (SECRETS_KV w1) \<and>
         console (settle ?w2) = console (settle w1) @ [''Delete Error:'']"
      using rj pw by (simp add: called_frame)
  qed
  have g: "\<not> rejected ?ns \<longrightarrow>
         pending ?w2 = pending w1 @ [Inr ()] \<and>
         entries (SECRETS_KV ?w2) = (entries (SECRETS_KV w1))(sid := None) \<and>
         console (settle ?w2) = console (settle w1) \<and>
         entries (SECRETS_KV (settle ?w2)) sid = None"
  proof
    assume rj: "\<not> rejected ?ns"
    then have pw: "pending ?w2 = pending w1 @ [Inr ()]" by simp
    from console_settle_snoc [OF pw b(2)]
    have "console (settle ?w2) = console (settle w1)"
      by (simp add: on_settled_def)
    with rj pw show "pending ?w2 = pending w1 @ [Inr ()] \<and>
         entries (SECRETS_KV ?w2) = (entries (SECRETS_KV w1))(sid := None) \<and>
         console (settle ?w2) = console (settle w1) \<and>
         entries (SECRETS_KV (settle ?w2)) sid = None"
      by (simp add: called_frame settle_frame)
  qed
  have s: "SECRETS_KV (settle ?w2) = SECRETS_KV ?w2" "pending (settle ?w2) = []"
    by (rule settle_frame)+
  have h: "\<forall>w3. entries (SECRETS_KV w3) sid = None \<and> \<not> rejected (SECRETS_KV w3) \<longrightarrow>
         read_handler sid w3 =
           (Response 404 (Error ''Secret not found or expired''),
            w3\<lparr>SECRETS_KV := called (GetWithMetadata sid) (SECRETS_KV w3)\<rparr>)"
    by (simp add: read_handler_missing [OF valid])
  show ?thesis
    using r1 a b f g s h by blast
qed

lemma example_read_once_world:
  "\<not> rejected (SECRETS_KV (snd (create_handler example_runtime (Some body_read_once) empty_world)))"
  "\<not> rejected (called (GetWithMetadata (js_lit ''AlMxY9kDoP0bCnGr''))
      (SECRETS_KV (snd (create_handler example_runtime (Some body_read_once) empty_world))))"
  "pending (snd (create_handler example_runtime (Some body_read_once) empty_world)) = []"
  "console (settle (snd (create_handler example_runtime (Some body_read_once) empty_world))) = []"
  by (simp_all add: example_create_read_once rejected_def called_def settle_def)

lemma example_read_once_flaky_world:
  "\<not> rejected (SECRETS_KV (snd (create_handler example_runtime (Some body_read_once) flaky_world)))"
  "rejected (called (GetWithMetadata (js_lit ''AlMxY9kDoP0bCnGr''))
      (SECRETS_KV (snd (create_handler example_runtime (Some body_read_once) flaky_world))))"
  "console (settle (snd (create_handler example_runtime (Some body_read_once) flaky_world))) = []"
  by (simp_all add: example_create_read_once_flaky rejected_def called_def settle_def)

theorem read_once_lifecycle_witness:
  "fst (create_handler example_runtime (Some body_read_once) empty_world) =
     Response 200 (SecretId (js_lit ''AlMxY9kDoP0bCnGr'')) \<and>
   fst (read_handler (js_lit ''AlMxY9kDoP0bCnGr'')
          (snd (create_handler example_runtime (Some body_read_once) empty_world))) =
     Response 200 (Secret (js_lit ''x'') (make_metadata example_runtime JUndefined (JBool True))) \<and>
   pending (snd (read_handler (js_lit ''AlMxY9kDoP0bCnGr'')
          (snd (create_handler example_runtime (Some body_read_once) empty_world)))) =
     [Inr ()] \<and>
   fst (read_handler (js_lit ''AlMxY9kDoP0bCnGr'')
          (settle (snd (read_handler (js_lit ''AlMxY9kDoP0bCnGr'')
                (snd (create_handler example_runtime (Some body_read_once) empty_world)))))) =
     Response 404 (Error ''Secret not found or expired'') \<and>
   fst (read_handler (js_lit ''AlMxY9kDoP0bCnGr'')
          (snd (create_handler example_runtime (Some body_read_once) flaky_world))) =
     Response 200 (Secret (js_lit ''x'') (make_metadata example_runtime JUndefined (JBool True))) \<and>
   console (snd (read_handler (js_lit ''AlMxY9kDoP0bCnGr'')
          (snd (create_handler example_runtime (Some body_read_once) flaky_world)))) = [] \<and>
   console (settle (snd (read_handler (js_lit ''AlMxY9kDoP0bCnGr'')
          (snd (create_handler example_runtime (Some body_read_once) flaky_world))))) =
     [''Delete Error:'']"
proof -
  let ?sid = "js_lit ''AlMxY9kDoP0bCnGr''"
  let ?c = "create_handler example_runtime (Some body_read_once) empty_world"
  let ?f = "create_handler example_runtime (Some body_read_once) flaky_world"
  have c: "?c = (Response 200 (SecretId ?sid), snd ?c)"
    by (simp add: example_create_read_once)
  have f: "?f = (Response 200 (SecretId ?sid), snd ?f)"
    by (simp add: example_create_read_once_flaky)
  have d: "destructure body_read_once = Inr (JStr (js_lit ''x''), JUndefined, JBool True)"
    by (simp add: destructure_def body_read_once_def js_lit_def)
  have t: "truthy (JBool True)" by simp
  from read_once_lifecycle [OF c d t example_read_once_world(1)] example_read_once_world(2,3,4)
  obtain w2 where
    r: "read_handler ?sid (snd ?c) =
      (Response 200 (Secret (js_lit ''x'') (make_metadata example_runtime JUndefined (JBool True))), w2)"
    and p: "pending w2 = [Inr ()]"
    and gone: "entries (SECRETS_KV (settle w2)) ?sid = None"
    and kv: "SECRETS_KV (settle w2) = SECRETS_KV w2"
    and h: "\<forall>w3. entries (SECRETS_KV w3) ?sid = None \<and> \<not> rejected (SECRETS_KV w3) \<longrightarrow>
         read_handler ?sid w3 =
           (Response 404 (Error ''Secret not found or expired''),
            w3\<lparr>SECRETS_KV := called (GetWithMetadata ?sid) (SECRETS_KV w3)\<rparr>)"
    by auto
  have "outage (SECRETS_KV (snd (read_handler ?sid (snd ?c)))) = (\<lambda>n. False)"
    by (simp add: read_handler_outage example_create_read_once)
  then have "\<not> rejected (SECRETS_KV (settle w2))"
    using kv r by (simp add: rejected_def)
  with h gone have n: "fst (read_handler ?sid (settle w2)) =
      Response 404 (Error ''Secret not found or expired'')"
    by simp
  from read_once_lifecycle [OF f d t example_read_once_flaky_world(1)]
    example_read_once_flaky_world(2,3)
  obtain v2 where
    r': "read_handler ?sid (snd ?f) =
      (Response 200 (Secret (js_lit ''x'') (make_metadata example_runtime JUndefined (JBool True))), v2)"
    and c': "console v2 = console (snd ?f)"
    and l': "console (settle v2) = [''Delete Error:'']"
    by auto
  have "console (snd ?f) = []" by (simp add: example_create_read_once_flaky)
  with c' have c'': "console v2 = []" by simp
  have c1: "fst ?c = Response 200 (SecretId ?sid)"
    by (simp add: example_create_read_once)
  show ?thesis
    using n p l' c'' c1 by (simp add: r r')
qed

section \<open>Identifier allocation\<close>

lemma id_loop_collides:
  assumes "\<forall>k<3. occupied (SECRETS_KV w) (candidate rt (drawn w + k * ID_LENGTH)) \<and>
                 \<not> outage (SECRETS_KV w) (length (history (SECRETS_KV w)) + k)"
  shows "\<exists>s w'. id_loop rt None 0 w = (Inr (s, 3), w')"
proof -
  let ?w1 = "attempted rt w"
  let ?w2 = "attempted rt ?w1"
  let ?w3 = "attempted rt ?w2"
  have a: "occupied (SECRETS_KV w) (candidate rt (drawn w + k * ID_LENGTH)) \<and>
      \<not> outage (SECRETS_KV w) (length (history (SECRETS_KV w)) + k)" if "k < 3" for k
    using assms that by blast
  from a [of 0] a [of 1] a [of 2]
  have o0: "occupied (SECRETS_KV w) (candidate rt (drawn w))"
    and o1: "occupied (SECRETS_KV w) (candidate rt (drawn w + ID_LENGTH))"
    and o2: "occupied (SECRETS_KV w) (candidate rt (drawn w + (ID_LENGTH + ID_LENGTH)))"
    and r0: "\<not> outage (SECRETS_KV w) (length (history (SECRETS_KV w)))"
    and r1: "\<not> outage (SECRETS_KV w) (length (history (SECRETS_KV w)) + 1)"
    and r2: "\<not> outage (SECRETS_KV w) (length (history (SECRETS_KV w)) + 2)"
    by (simp_all add: mult_2)
  have s0: "id_loop rt None 0 w = id_loop rt (Some (candidate rt (drawn w))) (Suc 0) ?w1"
    using o0 r0 id_loop_step [of 0 rt None w] by (simp add: rejected_def)
  have s1: "id_loop rt (Some (candidate rt (drawn w))) (Suc 0) ?w1 =
      id_loop rt (Some (candidate rt (drawn ?w1))) (Suc (Suc 0)) ?w2"
    using o1 r1 id_loop_step [of "Suc 0" rt "Some (candidate rt (drawn w))" ?w1]
    by (simp add: rejected_def attempted_frame occupied_attempted)
  have s2: "id_loop rt (Some (candidate rt (drawn ?w1))) (Suc (Suc 0)) ?w2 =
      id_loop rt (Some (candidate rt (drawn ?w2))) (Suc (Suc (Suc 0))) ?w3"
    using o2 r2 id_loop_step [of "Suc (Suc 0)" rt "Some (candidate rt (drawn ?w1))" ?w2]
    by (simp add: rejected_def attempted_frame occupied_attempted add.assoc)
  have "id_loop rt (Some (candidate rt (drawn ?w2))) (Suc (Suc (Suc 0))) ?w3 =
      (Inr (Some (candidate rt (drawn ?w2)), 3), ?w3)"
    using id_loop_exit [of 3 rt "Some (candidate rt (drawn ?w2))" ?w3]
    by (simp add: numeral_3_eq_3)
  with s0 s1 s2 show ?thesis by simp
qed

lemma kv_put_history:
  "history (snd (kv_put ns key val ttl md)) = history ns @ [Put key val ttl md]"
  by (simp add: kv_put_def called_def)

lemma create_try_effects:
  assumes "create_try rt body w = (res, w')"
  shows "\<exists>cs ps. history (SECRETS_KV w') = history (SECRETS_KV w) @ map Get cs @ ps \<and>
           length cs \<le> 3 \<and> filter is_Get ps = [] \<and>
           drawn w' = drawn w + length cs * ID_LENGTH"
proof -
  obtain lr wl where l: "id_loop rt None 0 w = (lr, wl)"
    by (cases "id_loop rt None 0 w") blast
  from id_loop_effects [OF l] obtain cs where
    h: "history (SECRETS_KV wl) = history (SECRETS_KV w) @ map Get cs" and c: "length cs \<le> 3"
    and dr: "drawn wl = drawn w + length cs * ID_LENGTH"
    by auto
  have "(history (SECRETS_KV w') = history (SECRETS_KV w) \<and> drawn w' = drawn w) \<or>
        (history (SECRETS_KV w') = history (SECRETS_KV wl) \<and> drawn w' = drawn wl) \<or>
        (\<exists>key val ttl md. history (SECRETS_KV w') = history (SECRETS_KV wl) @ [Put key val ttl md]
            \<and> drawn w' = drawn wl)"
    using assms l
    by (auto simp: create_try_def Let_def console_error_def kv_put_history
        split: sum.splits prod.splits validation.splits if_splits option.splits)
  then consider
      (none) "history (SECRETS_KV w') = history (SECRETS_KV w)" "drawn w' = drawn w"
    | (gets) "history (SECRETS_KV w') = history (SECRETS_KV wl)" "drawn w' = drawn wl"
    | (put) key val ttl md where
        "history (SECRETS_KV w') = history (SECRETS_KV wl) @ [Put key val ttl md]"
        "drawn w' = drawn wl"
    by blast
  then show ?thesis
  proof cases
    case none
    then have "history (SECRETS_KV w') = history (SECRETS_KV w) @ map Get [] @ []"
      "drawn w' = drawn w + length ([] :: jsstring list) * ID_LENGTH" by simp_all
    then show ?thesis by (metis filter.simps(1) le0 list.size(3))
  next
    case gets
    then have "history (SECRETS_KV w') = history (SECRETS_KV w) @ map Get cs @ []"
      using h by simp
    with gets dr c show ?thesis by (metis filter.simps(1))
  next
    case put
    then have "history (SECRETS_KV w') = history (SECRETS_KV w) @ map Get cs @ [Put key val ttl md]"
      using h by simp
    moreover have "filter is_Get [Put key val ttl md] = []" by simp
    ultimately show ?thesis using put dr c by metis
  qed
qed

lemma filter_is_Get_map: "filter is_Get (map Get cs) = map Get cs"
  by (induction cs) simp_all

lemma create_handler_effects:
  assumes "create_handler rt (Some body) w = (res, w')"
  shows "drawn w' \<le> drawn w + 3 * ID_LENGTH \<and>
         length (filter is_Get (history (SECRETS_KV w'))) \<le>
           length (filter is_Get (history (SECRETS_KV w))) + 3"
proof -
  obtain tr tw where t: "create_try rt body w = (tr, tw)"
    by (cases "create_try rt body w") blast
  from assms t have "history (SECRETS_KV w') = history (SECRETS_KV tw) \<and> drawn w' = drawn tw"
    by (auto simp: create_handler_def console_error_def split: sum.splits)
  moreover from create_try_effects [OF t] obtain cs ps where
    "history (SECRETS_KV tw) = history (SECRETS_KV w) @ map Get cs @ ps"
    "length cs \<le> 3" "filter is_Get ps = []" "drawn tw = drawn w + length cs * ID_LENGTH"
    by blast
  ultimately show ?thesis
    by (simp add: filter_is_Get_map)
qed

lemma create_handler_exhausted:
  assumes "destructure body = Inr (p, x, r)" and "validatePayload p = Valid"
    and "\<forall>k<3. occupied (SECRETS_KV w) (candidate rt (drawn w + k * ID_LENGTH)) \<and>
                \<not> outage (SECRETS_KV w) (length (history (SECRETS_KV w)) + k)"
  shows "\<exists>w'. create_handler rt (Some body) w =
           (Response 503 (Error ''Service busy, please try again''), w') \<and>
         console w' = console w @ [''ID collision exhaust''] \<and>
         entries (SECRETS_KV w') = entries (SECRETS_KV w)"
proof -
  from id_loop_collides [OF assms(3)] obtain s wl where
    l: "id_loop rt None 0 w = (Inr (s, 3), wl)" by blast
  from id_loop_effects [OF l]
  have f: "entries (SECRETS_KV wl) = entries (SECRETS_KV w)" "console wl = console w"
    by simp_all
  have "create_handler rt (Some body) w =
      (Response 503 (Error ''Service busy, please try again''),
       console_error ''ID collision exhaust'' wl)"
    using assms(1,2) l by (simp add: create_handler_def create_try_def)
  then show ?thesis
    using f by (simp add: console_error_def)
qed

text \<open>
  C4. A create request draws at most three ids and looks at most three keys up. When it
  is answered 200 with an id, that id was the last key looked up before the one \<open>put\<close>,
  which comes after all lookups, and the lookup found it free: the store held no truthy
  value under it. (A key holding the empty string counts as free, as \<open>!existing\<close> has it;
  the program itself never writes one.) When the payload is valid, the store serves the
  three lookups and all three ids drawn are occupied, the answer is 503 with its own
  message, which is not the 500 of the generic failure; \<open>ID collision exhaust\<close> is
  logged and nothing is written.
\<close>

theorem id_allocation:
  assumes "create_handler rt (Some body) w = (res, w')"
  shows "drawn w' \<le> drawn w + 3 * ID_LENGTH \<and>
         length (filter is_Get (history (SECRETS_KV w'))) \<le>
           length (filter is_Get (history (SECRETS_KV w))) + 3 \<and>
         (\<forall>sid. res = Response 200 (SecretId sid) \<longrightarrow>
            \<not> occupied (SECRETS_KV w) sid \<and>
            (\<exists>cs v t m. history (SECRETS_KV w') =
                 history (SECRETS_KV w) @ map Get cs @ [Put sid v t m] \<and>
               cs \<noteq> [] \<and> last cs = sid)) \<and>
         (destructure body = Inr (p, x, r) \<and> validatePayload p = Valid \<and>
          (\<forall>k<3. occupied (SECRETS_KV w) (candidate rt (drawn w + k * ID_LENGTH)) \<and>
                  \<not> outage (SECRETS_KV w) (length (history (SECRETS_KV w)) + k)) \<longrightarrow>
            res = Response 503 (Error ''Service busy, please try again'') \<and>
            status res \<noteq> 500 \<and>
            console w' = console w @ [''ID collision exhaust''] \<and>
            entries (SECRETS_KV w') = entries (SECRETS_KV w))"
proof (intro conjI allI impI)
  show "drawn w' \<le> drawn w + 3 * ID_LENGTH"
    using create_handler_effects [OF assms] by simp
  show "length (filter is_Get (history (SECRETS_KV w'))) \<le>
           length (filter is_Get (history (SECRETS_KV w))) + 3"
    using create_handler_effects [OF assms] by simp
next
  fix sid assume "res = Response 200 (SecretId sid)"
  with assms have c: "create_handler rt (Some body) w = (Response 200 (SecretId sid), w')"
    by simp
  show "\<not> occupied (SECRETS_KV w) sid"
    by (rule create_handler_ok [OF c])
  show "\<exists>cs v t m. history (SECRETS_KV w') =
                 history (SECRETS_KV w) @ map Get cs @ [Put sid v t m] \<and>
               cs \<noteq> [] \<and> last cs = sid"
    by (rule create_handler_ok [OF c]) blast
next
  assume h: "destructure body = Inr (p, x, r) \<and> validatePayload p = Valid \<and>
          (\<forall>k<3. occupied (SECRETS_KV w) (candidate rt (drawn w + k * ID_LENGTH)) \<and>
                  \<not> outage (SECRETS_KV w) (length (history (SECRETS_KV w)) + k))"
  from create_handler_exhausted [of body p x r w rt] h assms
  have e: "res = Response 503 (Error ''Service busy, please try again'') \<and>
         console w' = console w @ [''ID collision exhaust''] \<and>
         entries (SECRETS_KV w') = entries (SECRETS_KV w)" by auto
  from e show "res = Response 503 (Error ''Service busy, please try again'')" by simp
  from e show "status res \<noteq> 500" by simp
  from e show "console w' = console w @ [''ID collision exhaust'']" by simp
  from e show "entries (SECRETS_KV w') = entries (SECRETS_KV w)" by simp
qed

lemma candidate_stuck: "candidate stuck_runtime pos = js_lit ''AAAAAAAAAAAAAAAA''"
proof -
  have a: "id_char 0 = 0x41"
    by (simp add: id_char_def characters_def js_lit_def)
  have "candidate stuck_runtime pos = replicate 16 (id_char 0)"
    by (simp add: candidate_def stuck_runtime_def getRandomValues_def generateId_def
        ID_LENGTH_def map_replicate_const)
  also have "\<dots> = replicate 16 0x41" by (simp only: a)
  also have "\<dots> = [0x41, 0x41, 0x41, 0x41, 0x41, 0x41, 0x41, 0x41,
                    0x41, 0x41, 0x41, 0x41, 0x41, 0x41, 0x41, 0x41]"
    by (simp add: numeral_eq_Suc)
  also have "\<dots> = js_lit ''AAAAAAAAAAAAAAAA''"
    by (simp add: js_lit_def)
  finally show ?thesis .
qed

theorem id_allocation_witness:
  "fst (create_handler stuck_runtime (Some body_5min) crowded_world) =
     Response 503 (Error ''Service busy, please try again'') \<and>
   drawn (snd (create_handler stuck_runtime (Some body_5min) crowded_world)) \<le> 48 \<and>
   console (snd (create_handler stuck_runtime (Some body_5min) crowded_world)) =
     [''ID collision exhaust''] \<and>
   fst (create_handler example_runtime (Some body_5min) empty_world) =
     Response 200 (SecretId (js_lit ''AlMxY9kDoP0bCnGr'')) \<and>
   \<not> occupied (SECRETS_KV empty_world) (js_lit ''AlMxY9kDoP0bCnGr'')"
proof -
  let ?c = "create_handler stuck_runtime (Some body_5min) crowded_world"
  let ?d = "create_handler example_runtime (Some body_5min) empty_world"
  have c: "?c = (fst ?c, snd ?c)" by simp
  have d: "?d = (fst ?d, snd ?d)" by simp
  have b: "destructure body_5min =
      Inr (JStr (js_lit ''abc123''), JStr (js_lit ''5min''), JBool False)"
    by (simp add: destructure_def body_5min_def js_lit_def)
  have v: "validatePayload (JStr (js_lit ''abc123'')) = Valid"
    by (simp add: validatePayload_def js_lit_def MAX_PAYLOAD_SIZE_def)
  have o: "\<forall>k<3. occupied (SECRETS_KV crowded_world)
               (candidate stuck_runtime (drawn crowded_world + k * ID_LENGTH)) \<and>
             \<not> outage (SECRETS_KV crowded_world) (length (history (SECRETS_KV crowded_world)) + k)"
    by (simp add: candidate_stuck occupied_def crowded_world_def js_lit_def)
  from id_allocation [OF c, of "JStr (js_lit ''abc123'')" "JStr (js_lit ''5min'')" "JBool False"]
    b v o
  have "fst ?c = Response 503 (Error ''Service busy, please try again'')"
    and "drawn (snd ?c) \<le> drawn crowded_world + 3 * ID_LENGTH"
    and "console (snd ?c) = console crowded_world @ [''ID collision exhaust'']"
    by blast+
  moreover from id_allocation [OF d] example_create_5min
  have "\<not> occupied (SECRETS_KV empty_world) (js_lit ''AlMxY9kDoP0bCnGr'')"
    by blast
  ultimately show ?thesis
    using example_create_5min by (simp add: crowded_world_def ID_LENGTH_def)
qed

section \<open>The option kept in the metadata and the lifetime applied\<close>

lemma example_create_array_option:
  "create_handler example_runtime (Some body_array_option) empty_world =
    (Response 200 (SecretId (js_lit ''AlMxY9kDoP0bCnGr'')),
     \<lparr>SECRETS_KV =
        \<lparr>entries = [js_lit ''AlMxY9kDoP0bCnGr'' \<mapsto>
            \<lparr>kv_value = js_lit ''x'',
             kv_metadata = make_metadata example_runtime (JArr [JStr (js_lit ''5min'')]) JUndefined,
             kv_ttl = Num 300\<rparr>],
         history = [Get (js_lit ''AlMxY9kDoP0bCnGr''),
                    Put (js_lit ''AlMxY9kDoP0bCnGr'') (js_lit ''x'') (Num 300)
                      (make_metadata example_runtime (JArr [JStr (js_lit ''5min'')]) JUndefined)],
         outage = (\<lambda>n. False)\<rparr>,
      console = [], drawn = 16, pending = []\<rparr>)"
  by (simp add: example_runtime_def body_array_option_def empty_world_def create_eval)

lemma example_create_inherited_option:
  "create_handler example_runtime (Some body_inherited_option) empty_world =
    (Response 500 (Error ''Failed to create secret''),
     \<lparr>SECRETS_KV =
        \<lparr>entries = Map.empty,
         history = [Get (js_lit ''AlMxY9kDoP0bCnGr''),
                    Put (js_lit ''AlMxY9kDoP0bCnGr'') (js_lit ''x'') NaN
                      (make_metadata example_runtime (JStr (js_lit ''constructor'')) JUndefined)],
         outage = (\<lambda>n. False)\<rparr>,
      console = [''Create Error:''], drawn = 16, pending = []\<rparr>)"
  by (simp add: example_runtime_def body_inherited_option_def empty_world_def create_eval)

text \<open>
  C10. A create whose \<open>expiryOption\<close> is not one of the five bucket names is meant to
  keep the option as supplied in the metadata while the lifetime applied is the one-day
  default. The lifetime is not always that default. For the option \<open>constructor\<close>, a
  string that is no bucket name, the lifetime passed to \<open>put\<close> is NaN; the store rejects
  it, the request is answered 500 and nothing is stored, so no read returns the option.
  For the option \<open>["5min"]\<close>, an array and no bucket name either, the key conversion
  yields \<open>5min\<close>: the secret is stored with a lifetime of 300 seconds. Both come from the
  unguarded property read \<open>CONFIG.TTL_MAP[expiryOption]\<close>.
\<close>

theorem create_unrecognized_option_ttl:
  "fst (create_handler example_runtime (Some body_inherited_option) empty_world) =
     Response 500 (Error ''Failed to create secret'') \<and>
   history (SECRETS_KV (snd (create_handler example_runtime (Some body_inherited_option) empty_world))) =
     [Get (js_lit ''AlMxY9kDoP0bCnGr''),
      Put (js_lit ''AlMxY9kDoP0bCnGr'') (js_lit ''x'') NaN
        (make_metadata example_runtime (JStr (js_lit ''constructor'')) JUndefined)] \<and>
   entries (SECRETS_KV (snd (create_handler example_runtime (Some body_inherited_option) empty_world)))
     (js_lit ''AlMxY9kDoP0bCnGr'') = None \<and>
   fst (create_handler example_runtime (Some body_array_option) empty_world) =
     Response 200 (SecretId (js_lit ''AlMxY9kDoP0bCnGr'')) \<and>
   map_option kv_ttl
     (entries (SECRETS_KV (snd (create_handler example_runtime (Some body_array_option) empty_world)))
        (js_lit ''AlMxY9kDoP0bCnGr'')) = Some (Num 300) \<and>
   Num 300 \<noteq> Num DEFAULT_TTL"
  by (simp add: example_create_inherited_option example_create_array_option DEFAULT_TTL_def)

text \<open>
  Outside that defect the statement holds: with a falsy \<open>readOnce\<close> and an option that is
  absent or a string naming no property the table owns or inherits, a successful create
  stores the option as supplied and applies the one-day default.
\<close>

lemma create_default_ttl_keeps_option:
  assumes "create_handler rt (Some body) w = (Response 200 (SecretId sid), w1)"
    and "destructure body = Inr (p, x, r)" and "\<not> truthy r"
    and "x = JUndefined \<or>
         (\<exists>key. x = JStr key \<and> map_of TTL_MAP key = None \<and> key \<notin> set Object_prototype)"
  shows "\<exists>e. entries (SECRETS_KV w1) sid = Some e \<and> kv_ttl e = Num 86400 \<and>
             get_prop_opt (kv_metadata e) (js_lit ''userExpiryOption'') = x"
proof -
  from assms(1) obtain p' x' r' ttl where
    d: "destructure body = Inr (p', x', r')"
    and e: "effectiveKvTtl (Number_toString rt) x' r' = Inr ttl"
    and ent: "entries (SECRETS_KV w1) = (entries (SECRETS_KV w))
        (sid \<mapsto> \<lparr>kv_value = str_of p', kv_metadata = make_metadata rt x' r', kv_ttl = ttl\<rparr>)"
    by (rule create_handler_ok)
  from d assms(2) have eq: "p' = p" "x' = x" "r' = r" by simp_all
  have "effectiveKvTtl (Number_toString rt) x r = Inr (Num 86400)"
    using assms(3,4) by (auto simp: effectiveKvTtl_default effectiveKvTtl_absent)
  with e eq have "ttl = Num 86400" by simp
  with ent eq show ?thesis by (simp add: make_metadata_fields)
qed

end
